theory Spec2Isabelle
  imports Main "HOL-Library.Word" "HOL-Library.Char_ord" "HOL-Library.List_Lexorder"
begin

unbundle bit_operations_syntax

section \<open>Core types (formbridge/types.py)\<close>

text \<open>
  The closed enumerations of \<^verbatim>\<open>types.py\<close>. Each is a \<^verbatim>\<open>str\<close>-valued Python
  \<^verbatim>\<open>Enum\<close>; the function beside it is the member's \<^verbatim>\<open>.value\<close>.
\<close>

datatype SubmissionState =
    DRAFT | IN_PROGRESS | AWAITING_INPUT | AWAITING_UPLOAD | SUBMITTED | NEEDS_REVIEW
  | APPROVED | REJECTED | FINALIZED | CANCELLED | EXPIRED

fun state_value :: "SubmissionState \<Rightarrow> string" where
  "state_value DRAFT = ''draft''"
| "state_value IN_PROGRESS = ''in_progress''"
| "state_value AWAITING_INPUT = ''awaiting_input''"
| "state_value AWAITING_UPLOAD = ''awaiting_upload''"
| "state_value SUBMITTED = ''submitted''"
| "state_value NEEDS_REVIEW = ''needs_review''"
| "state_value APPROVED = ''approved''"
| "state_value REJECTED = ''rejected''"
| "state_value FINALIZED = ''finalized''"
| "state_value CANCELLED = ''cancelled''"
| "state_value EXPIRED = ''expired''"

datatype EventType =
    SUBMISSION_CREATED | FIELD_UPDATED | VALIDATION_PASSED | VALIDATION_FAILED
  | UPLOAD_REQUESTED | UPLOAD_COMPLETED | UPLOAD_FAILED | SUBMISSION_SUBMITTED
  | REVIEW_REQUESTED | REVIEW_APPROVED | REVIEW_REJECTED | DELIVERY_ATTEMPTED
  | DELIVERY_SUCCEEDED | DELIVERY_FAILED | SUBMISSION_FINALIZED | SUBMISSION_CANCELLED
  | SUBMISSION_EXPIRED | HANDOFF_LINK_ISSUED | HANDOFF_RESUMED

fun event_type_value :: "EventType \<Rightarrow> string" where
  "event_type_value SUBMISSION_CREATED = ''submission.created''"
| "event_type_value FIELD_UPDATED = ''field.updated''"
| "event_type_value VALIDATION_PASSED = ''validation.passed''"
| "event_type_value VALIDATION_FAILED = ''validation.failed''"
| "event_type_value UPLOAD_REQUESTED = ''upload.requested''"
| "event_type_value UPLOAD_COMPLETED = ''upload.completed''"
| "event_type_value UPLOAD_FAILED = ''upload.failed''"
| "event_type_value SUBMISSION_SUBMITTED = ''submission.submitted''"
| "event_type_value REVIEW_REQUESTED = ''review.requested''"
| "event_type_value REVIEW_APPROVED = ''review.approved''"
| "event_type_value REVIEW_REJECTED = ''review.rejected''"
| "event_type_value DELIVERY_ATTEMPTED = ''delivery.attempted''"
| "event_type_value DELIVERY_SUCCEEDED = ''delivery.succeeded''"
| "event_type_value DELIVERY_FAILED = ''delivery.failed''"
| "event_type_value SUBMISSION_FINALIZED = ''submission.finalized''"
| "event_type_value SUBMISSION_CANCELLED = ''submission.cancelled''"
| "event_type_value SUBMISSION_EXPIRED = ''submission.expired''"
| "event_type_value HANDOFF_LINK_ISSUED = ''handoff.link_issued''"
| "event_type_value HANDOFF_RESUMED = ''handoff.resumed''"

datatype FieldErrorCode =
    REQUIRED | INVALID_TYPE | INVALID_FORMAT | INVALID_VALUE | TOO_LONG | TOO_SHORT
  | FILE_REQUIRED | FILE_TOO_LARGE | FILE_WRONG_TYPE | CUSTOM

datatype ActorKind = AGENT | HUMAN | SYSTEM

fun actor_kind_value :: "ActorKind \<Rightarrow> string" where
  "actor_kind_value AGENT = ''agent''"
| "actor_kind_value HUMAN = ''human''"
| "actor_kind_value SYSTEM = ''system''"

text \<open>
  Python values of the JSON shape (\<^verbatim>\<open>Dict[str, Any]\<close> documents, schemas, payloads):
  \<^verbatim>\<open>None\<close>, \<^verbatim>\<open>bool\<close>, \<^verbatim>\<open>int\<close>, \<^verbatim>\<open>str\<close>, \<^verbatim>\<open>list\<close> and \<^verbatim>\<open>dict\<close> with
  string keys, a dict being its items in insertion order. Floats are outside the model.
\<close>

datatype json =
    JNull | JBool bool | JInt int | JStr string | JArr "json list"
  | JObj "(string \<times> json) list"

text \<open>
  \<^verbatim>\<open>Actor\<close>: a frozen dataclass. \<^verbatim>\<open>name\<close> and \<^verbatim>\<open>metadata\<close> are \<^verbatim>\<open>Optional\<close>;
  the dataclass default of \<^verbatim>\<open>metadata\<close> is the empty dict.
\<close>

record Actor =
  kind :: ActorKind
  actor_id :: string
  name :: "string option"
  metadata :: "(string \<times> json) list option"

text \<open>
  \<^verbatim>\<open>datetime\<close>: the calendar fields and the UTC offset in minutes (\<^verbatim>\<open>None\<close> for a
  naive value). \<^verbatim>\<open>datetime.now(timezone.utc)\<close> is an input of the model.
\<close>

record datetime =
  year :: nat
  month :: nat
  day :: nat
  hour :: nat
  minute :: nat
  second :: nat
  microsecond :: nat
  utcoffset :: "int option"

section \<open>Event record (formbridge/events.py)\<close>

record IntakeEvent =
  event_id :: string
  ev_type :: EventType
  ev_submission_id :: string
  ts :: datetime
  actor :: Actor
  ev_state :: SubmissionState
  payload :: "(string \<times> json) list option"

section \<open>State machine (formbridge/state_machine.py)\<close>

text \<open>\<^verbatim>\<open>InvalidStateTransitionError(current_state, target_state, message)\<close>.\<close>

datatype InvalidStateTransitionError =
  InvalidStateTransitionError
    (err_current_state: SubmissionState) (err_target_state: SubmissionState)
    (err_message: string)

text \<open>\<^verbatim>\<open>STATE_TO_EVENT_TYPE\<close>: a dict with eight keys, read with \<^verbatim>\<open>.get\<close>.\<close>

fun STATE_TO_EVENT_TYPE :: "SubmissionState \<Rightarrow> EventType option" where
  "STATE_TO_EVENT_TYPE DRAFT = Some SUBMISSION_CREATED"
| "STATE_TO_EVENT_TYPE SUBMITTED = Some SUBMISSION_SUBMITTED"
| "STATE_TO_EVENT_TYPE NEEDS_REVIEW = Some REVIEW_REQUESTED"
| "STATE_TO_EVENT_TYPE APPROVED = Some REVIEW_APPROVED"
| "STATE_TO_EVENT_TYPE REJECTED = Some REVIEW_REJECTED"
| "STATE_TO_EVENT_TYPE FINALIZED = Some SUBMISSION_FINALIZED"
| "STATE_TO_EVENT_TYPE CANCELLED = Some SUBMISSION_CANCELLED"
| "STATE_TO_EVENT_TYPE EXPIRED = Some SUBMISSION_EXPIRED"
| "STATE_TO_EVENT_TYPE _ = None"

text \<open>\<^verbatim>\<open>VALID_TRANSITIONS\<close>: every state is a key of the dict.\<close>

fun VALID_TRANSITIONS :: "SubmissionState \<Rightarrow> SubmissionState set" where
  "VALID_TRANSITIONS DRAFT = {IN_PROGRESS, CANCELLED, EXPIRED}"
| "VALID_TRANSITIONS IN_PROGRESS =
     {AWAITING_INPUT, AWAITING_UPLOAD, SUBMITTED, CANCELLED, EXPIRED}"
| "VALID_TRANSITIONS AWAITING_INPUT = {IN_PROGRESS, CANCELLED, EXPIRED}"
| "VALID_TRANSITIONS AWAITING_UPLOAD = {IN_PROGRESS, CANCELLED, EXPIRED}"
| "VALID_TRANSITIONS SUBMITTED = {NEEDS_REVIEW, FINALIZED, REJECTED, CANCELLED, EXPIRED}"
| "VALID_TRANSITIONS NEEDS_REVIEW = {APPROVED, REJECTED, CANCELLED, EXPIRED}"
| "VALID_TRANSITIONS APPROVED = {FINALIZED, CANCELLED, EXPIRED}"
| "VALID_TRANSITIONS REJECTED = {}"
| "VALID_TRANSITIONS FINALIZED = {}"
| "VALID_TRANSITIONS CANCELLED = {}"
| "VALID_TRANSITIONS EXPIRED = {}"

text \<open>
  The dataclass \<^verbatim>\<open>SubmissionStateMachine\<close>. \<^verbatim>\<open>_events\<close> has \<^verbatim>\<open>init=False\<close>: the
  constructor always starts it empty, whatever state it is given.
\<close>

record SubmissionStateMachine =
  submission_id :: string
  state :: SubmissionState
  events :: "IntakeEvent list"

definition new_state_machine :: "string \<Rightarrow> SubmissionState \<Rightarrow> SubmissionStateMachine" where
  "new_state_machine sid st = \<lparr>submission_id = sid, state = st, events = []\<rparr>"

definition can_transition_to :: "SubmissionStateMachine \<Rightarrow> SubmissionState \<Rightarrow> bool" where
  "can_transition_to sm target_state \<longleftrightarrow> target_state \<in> VALID_TRANSITIONS (state sm)"

definition is_terminal :: "SubmissionStateMachine \<Rightarrow> bool" where
  "is_terminal sm \<longleftrightarrow> card (VALID_TRANSITIONS (state sm)) = 0"

text \<open>\<^verbatim>\<open>sep.join(xs)\<close>.\<close>

fun join :: "string \<Rightarrow> string list \<Rightarrow> string" where
  "join sep [] = []"
| "join sep [x] = x"
| "join sep (x # y # ys) = x @ sep @ join sep (y # ys)"

text \<open>
  \<^verbatim>\<open>uuid.uuid4().hex\<close>: the 32 lowercase hexadecimal digits of a 128-bit value, most
  significant first. The random 128-bit value is an input of the model.
\<close>

definition hex_digits :: string where
  "hex_digits = ''0123456789abcdef''"

definition hexdigit :: "nat \<Rightarrow> char" where
  "hexdigit n = hex_digits ! (n mod 16)"

definition uuid_hex :: "128 word \<Rightarrow> string" where
  "uuid_hex u = map (\<lambda>i. hexdigit (unat (drop_bit (4 * (31 - i)) u AND 15))) [0..<32]"

text \<open>The message built in the \<^verbatim>\<open>raise\<close> of \<^verbatim>\<open>transition_to\<close>.\<close>

definition invalid_transition_message :: "SubmissionState \<Rightarrow> SubmissionState \<Rightarrow> string" where
  "invalid_transition_message cur target =
     (if VALID_TRANSITIONS cur \<noteq> {}
      then ''Invalid state transition: cannot transition from '' @ [CHR 39] @ state_value cur
           @ [CHR 39] @ '' to '' @ [CHR 39] @ state_value target @ [CHR 39]
           @ ''. Valid transitions from '' @ [CHR 39] @ state_value cur @ [CHR 39] @ '' are: ''
           @ join '', '' (sorted_list_of_set (state_value ` VALID_TRANSITIONS cur))
      else ''Invalid state transition: '' @ [CHR 39] @ state_value cur @ [CHR 39]
           @ '' is a terminal state, no transitions are allowed.'')"

text \<open>
  \<^verbatim>\<open>_emit_event\<close>: picks the event type from the target state, mints the event and
  appends it to the log. The uuid and the clock reading are passed in.
\<close>

definition emit_event ::
  "SubmissionState \<Rightarrow> Actor \<Rightarrow> SubmissionState \<Rightarrow> 128 word \<Rightarrow> datetime
     \<Rightarrow> SubmissionStateMachine \<Rightarrow> SubmissionStateMachine" where
  "emit_event new_state act old_state u now sm =
     (let event_type = (case STATE_TO_EVENT_TYPE new_state of
                          Some t \<Rightarrow> t | None \<Rightarrow> FIELD_UPDATED);
          eid = ''evt_'' @ take 16 (uuid_hex u);
          event = \<lparr>event_id = eid, ev_type = event_type,
                   ev_submission_id = submission_id sm, ts = now, actor = act,
                   ev_state = new_state,
                   payload = Some [(''from_state'', JStr (state_value old_state)),
                                   (''to_state'', JStr (state_value new_state))]\<rparr>
      in sm\<lparr>events := events sm @ [event]\<rparr>)"

text \<open>
  \<^verbatim>\<open>transition_to\<close>: the result is the exception raised (\<open>Inl\<close>) or the normal
  return (\<open>Inr ()\<close>), paired with the machine as the call leaves it.
\<close>

definition transition_to ::
  "SubmissionState \<Rightarrow> Actor \<Rightarrow> 128 word \<Rightarrow> datetime \<Rightarrow> SubmissionStateMachine
     \<Rightarrow> (InvalidStateTransitionError + unit) \<times> SubmissionStateMachine" where
  "transition_to target act u now sm =
     (if \<not> can_transition_to sm target
      then (Inl (InvalidStateTransitionError (state sm) target
                   (invalid_transition_message (state sm) target)), sm)
      else (let old_state = state sm;
                sm1 = sm\<lparr>state := target\<rparr>
            in (Inr (), emit_event target act old_state u now sm1)))"

text \<open>\<^verbatim>\<open>get_events\<close> returns a copy of the log.\<close>

definition get_events :: "SubmissionStateMachine \<Rightarrow> IntakeEvent list" where
  "get_events sm = events sm"

text \<open>
  A sequence of \<^verbatim>\<open>transition_to\<close> calls on one machine; the first exception ends it,
  as it would in the caller.
\<close>

record transition_call =
  call_target :: SubmissionState
  call_actor :: Actor
  call_uuid :: "128 word"
  call_now :: datetime

fun transition_all ::
  "transition_call list \<Rightarrow> SubmissionStateMachine
     \<Rightarrow> (InvalidStateTransitionError + unit) \<times> SubmissionStateMachine" where
  "transition_all [] sm = (Inr (), sm)"
| "transition_all (c # cs) sm =
     (case transition_to (call_target c) (call_actor c) (call_uuid c) (call_now c) sm of
        (Inl e, sm') \<Rightarrow> (Inl e, sm')
      | (Inr _, sm') \<Rightarrow> transition_all cs sm')"

text \<open>
  The event-type table as the specification words it: one entry per target state that a
  transition can reach; \<^verbatim>\<open>draft\<close> has no entry.
\<close>

fun spec_event_type :: "SubmissionState \<Rightarrow> EventType option" where
  "spec_event_type IN_PROGRESS = Some FIELD_UPDATED"
| "spec_event_type AWAITING_INPUT = Some FIELD_UPDATED"
| "spec_event_type AWAITING_UPLOAD = Some FIELD_UPDATED"
| "spec_event_type SUBMITTED = Some SUBMISSION_SUBMITTED"
| "spec_event_type NEEDS_REVIEW = Some REVIEW_REQUESTED"
| "spec_event_type APPROVED = Some REVIEW_APPROVED"
| "spec_event_type REJECTED = Some REVIEW_REJECTED"
| "spec_event_type FINALIZED = Some SUBMISSION_FINALIZED"
| "spec_event_type CANCELLED = Some SUBMISSION_CANCELLED"
| "spec_event_type EXPIRED = Some SUBMISSION_EXPIRED"
| "spec_event_type DRAFT = None"

section \<open>Python built-ins used by the validation engine\<close>

text \<open>
  \<^verbatim>\<open>str\<close> of a non-negative \<^verbatim>\<open>int\<close>, and of any \<^verbatim>\<open>int\<close>.
\<close>

function decimal :: "nat \<Rightarrow> string" where
  "decimal n = (if n < 10 then [hexdigit n] else decimal (n div 10) @ [hexdigit (n mod 10)])"
  by pat_completeness auto
termination
  by (relation "measure id") auto

declare decimal.simps [simp del]

definition str_int :: "int \<Rightarrow> string" where
  "str_int i = (if i < 0 then CHR ''-'' # decimal (nat (- i)) else decimal (nat i))"

text \<open>
  \<^verbatim>\<open>repr\<close> of a \<^verbatim>\<open>str\<close> whose code points are below 256: the quote is \<^verbatim>\<open>"\<close> when
  the string holds \<^verbatim>\<open>'\<close> and no \<^verbatim>\<open>"\<close>, else \<^verbatim>\<open>'\<close>; the quote and the backslash are
  escaped, tab, newline and return have their letters, and every other non-printable code
  point is written \<^verbatim>\<open>\xhh\<close>.
\<close>

definition hex2 :: "nat \<Rightarrow> string" where
  "hex2 n = [hexdigit (n div 16), hexdigit n]"

definition repr_char :: "char \<Rightarrow> char \<Rightarrow> string" where
  "repr_char q c =
     (let n = (of_char c :: nat) in
      if c = q \<or> c = CHR 0x5C then [CHR 0x5C, c]
      else if n = 9 then [CHR 0x5C, CHR ''t'']
      else if n = 10 then [CHR 0x5C, CHR ''n'']
      else if n = 13 then [CHR 0x5C, CHR ''r'']
      else if n < 32 \<or> n = 127 then [CHR 0x5C, CHR ''x''] @ hex2 n
      else if n < 127 then [c]
      else if n \<le> 160 \<or> n = 173 then [CHR 0x5C, CHR ''x''] @ hex2 n
      else [c])"

definition repr_str :: "string \<Rightarrow> string" where
  "repr_str s =
     (let q = (if CHR 39 \<in> set s \<and> CHR 34 \<notin> set s then CHR 34 else CHR 39)
      in [q] @ concat (map (repr_char q) s) @ [q])"

text \<open>\<^verbatim>\<open>repr\<close> and \<^verbatim>\<open>str\<close> of a value; \<^verbatim>\<open>str\<close> is what an f-string field prints.\<close>

fun py_repr :: "json \<Rightarrow> string" where
  "py_repr JNull = ''None''"
| "py_repr (JBool b) = (if b then ''True'' else ''False'')"
| "py_repr (JInt i) = str_int i"
| "py_repr (JStr s) = repr_str s"
| "py_repr (JArr xs) = ''['' @ join '', '' (map py_repr xs) @ '']''"
| "py_repr (JObj kvs) =
     ''{'' @ join '', '' (map (\<lambda>kv. repr_str (fst kv) @ '': '' @ py_repr (snd kv)) kvs) @ ''}''"

definition py_str :: "json \<Rightarrow> string" where
  "py_str v = (case v of JStr s \<Rightarrow> s | _ \<Rightarrow> py_repr v)"

text \<open>Truth value, \<^verbatim>\<open>len\<close> and \<^verbatim>\<open>type(v).__name__\<close>.\<close>

fun truthy :: "json \<Rightarrow> bool" where
  "truthy JNull = False"
| "truthy (JBool b) = b"
| "truthy (JInt i) = (i \<noteq> 0)"
| "truthy (JStr s) = (s \<noteq> [])"
| "truthy (JArr xs) = (xs \<noteq> [])"
| "truthy (JObj kvs) = (kvs \<noteq> [])"

fun type_name :: "json \<Rightarrow> string" where
  "type_name JNull = ''NoneType''"
| "type_name (JBool b) = ''bool''"
| "type_name (JInt i) = ''int''"
| "type_name (JStr s) = ''str''"
| "type_name (JArr xs) = ''list''"
| "type_name (JObj kvs) = ''dict''"

text \<open>
  The exceptions of the modelled code that reach its caller. \<open>Unannotated\<close> is not an
  exception: it marks a call that Python completes with an object holding a value its
  annotation excludes, which the records of this model cannot hold.
\<close>

datatype py_error =
    KeyError string | ValueError string | TypeError string | AttributeError string
  | SchemaError | LibraryError string | InvalidTransition InvalidStateTransitionError
  | Unannotated string

fun len :: "json \<Rightarrow> py_error + nat" where
  "len (JStr s) = Inr (length s)"
| "len (JArr xs) = Inr (length xs)"
| "len (JObj kvs) = Inr (length kvs)"
| "len v = Inl (TypeError (''object of type '' @ [CHR 39] @ type_name v @ [CHR 39]
                            @ '' has no len()''))"

section \<open>Validation engine (formbridge/validation.py)\<close>

record FieldError =
  path :: string
  code :: FieldErrorCode
  message :: string
  expected :: json
  received :: json

record ValidationResult =
  is_valid :: bool
  errors :: "FieldError list"
  data :: "json option"
  missing_fields :: "string list option"
  invalid_fields :: "string list option"

text \<open>
  \<^verbatim>\<open>jsonschema.ValidationError\<close>, the diagnostic of the external validator, with the
  attributes the engine reads. An element of \<^verbatim>\<open>path\<close> is a property name or an array
  index.
\<close>

datatype path_element = Key string | Index nat

fun str_path_element :: "path_element \<Rightarrow> string" where
  "str_path_element (Key k) = k"
| "str_path_element (Index i) = decimal i"

record ValidationError =
  ve_path :: "path_element list"
  ve_validator :: string
  ve_validator_value :: json
  ve_instance :: json
  ve_message :: string

text \<open>
  The external \<^verbatim>\<open>jsonschema\<close> library: \<^verbatim>\<open>Draft7Validator.check_schema\<close> (true when it
  does not raise \<^verbatim>\<open>SchemaError\<close>) and, for a schema and a document,
  \<^verbatim>\<open>list(iter_errors(...))\<close>: the diagnostics, or an exception of the library's own (an
  unresolvable \<^verbatim>\<open>$ref\<close>, say), here \<open>LibraryError\<close>.
\<close>

record Draft7Validator =
  check_schema :: "json \<Rightarrow> bool"
  iter_errors :: "json \<Rightarrow> json \<Rightarrow> py_error + ValidationError list"

record ValidationEngine =
  schema :: json
  validator :: "json \<Rightarrow> py_error + ValidationError list"

definition new_validation_engine :: "Draft7Validator \<Rightarrow> json \<Rightarrow> py_error + ValidationEngine" where
  "new_validation_engine lib sch =
     (if check_schema lib sch then Inr \<lparr>schema = sch, validator = iter_errors lib sch\<rparr>
      else Inl SchemaError)"

text \<open>\<^verbatim>\<open>error.message.split("'")[1]\<close>, for a message that holds an apostrophe.\<close>

definition split_apostrophe_1 :: "string \<Rightarrow> string" where
  "split_apostrophe_1 m =
     takeWhile (\<lambda>c. c \<noteq> CHR 39) (drop 1 (dropWhile (\<lambda>c. c \<noteq> CHR 39) m))"

text \<open>
  \<^verbatim>\<open>len(error.instance) if error.instance else 0\<close>.
\<close>

definition actual_length :: "json \<Rightarrow> py_error + nat" where
  "actual_length inst = (if truthy inst then len inst else Inr 0)"

definition translate_error :: "ValidationError \<Rightarrow> py_error + FieldError" where
  "translate_error error =
     (let p = (if ve_path error \<noteq> [] then join ''.'' (map str_path_element (ve_path error))
               else []);
          v = ve_validator error
      in
      if v = ''required'' then
        (let missing_prop = (if CHR 39 \<in> set (ve_message error)
                             then split_apostrophe_1 (ve_message error) else ''field'');
             full_path = (if p \<noteq> [] then p @ ''.'' @ missing_prop else missing_prop)
         in Inr \<lparr>path = full_path, code = REQUIRED,
                 message = ''Field '' @ [CHR 39] @ full_path @ [CHR 39]
                           @ '' is required but was not provided'',
                 expected = JStr ''required field'', received = JNull\<rparr>)
      else if v = ''type'' then
        (let expected_type = ve_validator_value error;
             received_value = ve_instance error;
             received_type = type_name received_value
         in Inr \<lparr>path = p, code = INVALID_TYPE,
                 message = ''Field '' @ [CHR 39] @ p @ [CHR 39]
                           @ '' has invalid type. Expected '' @ py_str expected_type
                           @ '', got '' @ received_type,
                 expected = expected_type, received = JStr received_type\<rparr>)
      else if v = ''format'' then
        (let expected_format = ve_validator_value error
         in Inr \<lparr>path = p, code = INVALID_FORMAT,
                 message = ''Field '' @ [CHR 39] @ p @ [CHR 39]
                           @ '' has invalid format. Expected format: ''
                           @ py_str expected_format,
                 expected = expected_format, received = ve_instance error\<rparr>)
      else if v = ''enum'' \<or> v = ''const'' then
        (let expected_values = ve_validator_value error
         in Inr \<lparr>path = p, code = INVALID_VALUE,
                 message = ''Field '' @ [CHR 39] @ p @ [CHR 39]
                           @ '' has invalid value. Must be one of: ''
                           @ py_str expected_values,
                 expected = expected_values, received = ve_instance error\<rparr>)
      else if v = ''minLength'' then
        (let min_length = ve_validator_value error
         in case actual_length (ve_instance error) of
              Inl e \<Rightarrow> Inl e
            | Inr n \<Rightarrow>
                Inr \<lparr>path = p, code = TOO_SHORT,
                     message = ''Field '' @ [CHR 39] @ p @ [CHR 39]
                               @ '' is too short. Minimum length: '' @ py_str min_length
                               @ '', got: '' @ decimal n,
                     expected = JStr (''minimum '' @ py_str min_length @ '' characters''),
                     received = JStr (decimal n @ '' characters'')\<rparr>)
      else if v = ''maxLength'' then
        (let max_length = ve_validator_value error
         in case actual_length (ve_instance error) of
              Inl e \<Rightarrow> Inl e
            | Inr n \<Rightarrow>
                Inr \<lparr>path = p, code = TOO_LONG,
                     message = ''Field '' @ [CHR 39] @ p @ [CHR 39]
                               @ '' is too long. Maximum length: '' @ py_str max_length
                               @ '', got: '' @ decimal n,
                     expected = JStr (''maximum '' @ py_str max_length @ '' characters''),
                     received = JStr (decimal n @ '' characters'')\<rparr>)
      else if v = ''minimum'' \<or> v = ''maximum'' \<or> v = ''exclusiveMinimum''
              \<or> v = ''exclusiveMaximum'' then
        (let constraint_value = ve_validator_value error
         in Inr \<lparr>path = p, code = INVALID_VALUE,
                 message = ''Field '' @ [CHR 39] @ p @ [CHR 39] @ '' violates '' @ v
                           @ '' constraint: '' @ py_str constraint_value,
                 expected = JStr (v @ '': '' @ py_str constraint_value),
                 received = ve_instance error\<rparr>)
      else if v = ''pattern'' then
        (let pattern = ve_validator_value error
         in Inr \<lparr>path = p, code = INVALID_FORMAT,
                 message = ''Field '' @ [CHR 39] @ p @ [CHR 39]
                           @ '' does not match required pattern: '' @ py_str pattern,
                 expected = JStr (''pattern: '' @ py_str pattern),
                 received = ve_instance error\<rparr>)
      else
        Inr \<lparr>path = p, code = CUSTOM,
             message = ''Field '' @ [CHR 39] @ p @ [CHR 39] @ '' validation failed: ''
                       @ ve_message error,
             expected = ve_validator_value error, received = ve_instance error\<rparr>)"

text \<open>
  The loop of \<^verbatim>\<open>validate\<close> over the diagnostics, with its three growing lists; an
  exception in \<^verbatim>\<open>_translate_error\<close> ends it.
\<close>

fun translate_all ::
  "ValidationError list \<Rightarrow> FieldError list \<Rightarrow> string list \<Rightarrow> string list
     \<Rightarrow> py_error + (FieldError list \<times> string list \<times> string list)" where
  "translate_all [] field_errors missing invalid = Inr (field_errors, missing, invalid)"
| "translate_all (error # rest) field_errors missing invalid =
     (case translate_error error of
        Inl e \<Rightarrow> Inl e
      | Inr field_error \<Rightarrow>
          if code field_error = REQUIRED
          then translate_all rest (field_errors @ [field_error])
                 (missing @ [path field_error]) invalid
          else translate_all rest (field_errors @ [field_error])
                 missing (invalid @ [path field_error]))"

definition validate :: "ValidationEngine \<Rightarrow> json \<Rightarrow> py_error + ValidationResult" where
  "validate engine doc =
     (case validator engine doc of
        Inl e \<Rightarrow> Inl e
      | Inr errs \<Rightarrow>
          if errs = []
          then Inr \<lparr>is_valid = True, errors = [], data = Some doc,
                    missing_fields = Some [], invalid_fields = Some []\<rparr>
          else (case translate_all errs [] [] [] of
                  Inl e \<Rightarrow> Inl e
                | Inr (field_errors, missing, invalid) \<Rightarrow>
                    Inr \<lparr>is_valid = False, errors = field_errors, data = Some doc,
                         missing_fields = Some missing, invalid_fields = Some invalid\<rparr>))"

section \<open>Serialising an actor (formbridge/types.py)\<close>

text \<open>
  \<^verbatim>\<open>Actor.to_dict\<close>: \<^verbatim>\<open>name\<close> is written unless it is \<^verbatim>\<open>None\<close>, \<^verbatim>\<open>metadata\<close> only
  when it is truthy, that is neither \<^verbatim>\<open>None\<close> nor empty.
\<close>

definition actor_to_dict :: "Actor \<Rightarrow> json" where
  "actor_to_dict a =
     JObj ([(''kind'', JStr (actor_kind_value (kind a))), (''id'', JStr (actor_id a))]
           @ (case name a of None \<Rightarrow> [] | Some n \<Rightarrow> [(''name'', JStr n)])
           @ (case metadata a of
                None \<Rightarrow> []
              | Some m \<Rightarrow> if m \<noteq> [] then [(''metadata'', JObj m)] else []))"

text \<open>\<^verbatim>\<open>ActorKind(value)\<close>: the member with that value, or \<^verbatim>\<open>ValueError\<close>.\<close>

definition actor_kind_of :: "string \<Rightarrow> py_error + ActorKind" where
  "actor_kind_of s =
     (if s = ''agent'' then Inr AGENT
      else if s = ''human'' then Inr HUMAN
      else if s = ''system'' then Inr SYSTEM
      else Inl (ValueError (repr_str s @ '' is not a valid ActorKind'')))"

section \<open>Runtime orchestrator (formbridge/runtime.py)\<close>

text \<open>
  \<^verbatim>\<open>secrets.token_urlsafe(nbytes)\<close>: \<^verbatim>\<open>nbytes\<close> bytes of the system's random source,
  encoded with the URL-safe base64 alphabet, the padding stripped. The random source is an
  input of the model: a stream of bytes.
\<close>

definition urlsafe_alphabet :: string where
  "urlsafe_alphabet = ''ABCDEFGHIJKLMNOPQRSTUVWXYZabcdefghijklmnopqrstuvwxyz0123456789-_''"

definition b64char :: "nat \<Rightarrow> char" where
  "b64char n = urlsafe_alphabet ! (n mod 64)"

fun urlsafe_b64encode :: "8 word list \<Rightarrow> string" where
  "urlsafe_b64encode [] = []"
| "urlsafe_b64encode [a] =
     [b64char (unat a div 4), b64char (unat a mod 4 * 16), CHR ''='', CHR ''='']"
| "urlsafe_b64encode [a, b] =
     [b64char (unat a div 4), b64char (unat a mod 4 * 16 + unat b div 16),
      b64char (unat b mod 16 * 4), CHR ''='']"
| "urlsafe_b64encode (a # b # c # rest) =
     [b64char (unat a div 4), b64char (unat a mod 4 * 16 + unat b div 16),
      b64char (unat b mod 16 * 4 + unat c div 64), b64char (unat c mod 64)]
     @ urlsafe_b64encode rest"

definition rstrip :: "char \<Rightarrow> string \<Rightarrow> string" where
  "rstrip c s = rev (dropWhile (\<lambda>x. x = c) (rev s))"

definition token_bytes :: "(nat \<Rightarrow> 8 word) \<Rightarrow> nat \<Rightarrow> 8 word list" where
  "token_bytes src nbytes = map src [0..<nbytes]"

definition token_urlsafe :: "(nat \<Rightarrow> 8 word) \<Rightarrow> nat \<Rightarrow> string" where
  "token_urlsafe src nbytes = rstrip CHR ''='' (urlsafe_b64encode (token_bytes src nbytes))"

definition generate_resume_token :: "(nat \<Rightarrow> 8 word) \<Rightarrow> string" where
  "generate_resume_token src = ''rt_'' @ token_urlsafe src 32"

text \<open>
  What one \<^verbatim>\<open>create_submission\<close> call draws from outside: the uuid of the submission
  id, the random bytes of the resume token, and the uuid and the clock reading of the
  event its transition mints.
\<close>

record draws =
  submission_uuid :: "128 word"
  token_source :: "nat \<Rightarrow> 8 word"
  event_uuid :: "128 word"
  clock :: datetime

text \<open>
  The \<^verbatim>\<open>actor\<close> argument: an \<^verbatim>\<open>Actor\<close>, or a dict with the keys \<^verbatim>\<open>kind\<close>, \<^verbatim>\<open>id\<close>,
  \<^verbatim>\<open>name\<close>, \<^verbatim>\<open>metadata\<close>, each present or not and of its annotated type when present.
\<close>

record actor_dict =
  dict_kind :: "string option"
  dict_id :: "string option"
  dict_name :: "string option"
  dict_metadata :: "(string \<times> json) list option"

datatype actor_arg = ActorDict actor_dict | ActorObject Actor

definition normalize_actor :: "actor_arg \<Rightarrow> py_error + Actor" where
  "normalize_actor a =
     (case a of
        ActorObject act \<Rightarrow> Inr act
      | ActorDict d \<Rightarrow>
          (case dict_kind d of
             None \<Rightarrow> Inl (KeyError ''kind'')
           | Some ks \<Rightarrow>
               (case actor_kind_of ks of
                  Inl e \<Rightarrow> Inl e
                | Inr k \<Rightarrow>
                    (case dict_id d of
                       None \<Rightarrow> Inl (KeyError ''id'')
                     | Some i \<Rightarrow>
                         Inr \<lparr>kind = k, actor_id = i, name = dict_name d,
                              metadata = dict_metadata d\<rparr>))))"

text \<open>The metadata dict stored per submission, and the success reply.\<close>

record submission_record =
  rec_submission_id :: string
  rec_intake_id :: string
  rec_state :: string
  rec_resume_token :: string
  rec_created_by :: json
  rec_ttl_ms :: "int option"

record response =
  ok :: bool
  submissionId :: string
  resp_state :: string
  resumeToken :: string
  resp_schema :: json
  missingFields :: "string list option"

record IntakeRuntime =
  intake_id :: string
  rt_schema :: json
  validation_engine :: ValidationEngine
  submissions :: "string \<rightharpoonup> submission_record"
  state_machines :: "string \<rightharpoonup> SubmissionStateMachine"
  resume_tokens :: "string \<rightharpoonup> string"
  submission_data :: "string \<rightharpoonup> (string \<times> json) list"
  idempotency_keys :: "string \<rightharpoonup> string"

definition new_runtime :: "Draft7Validator \<Rightarrow> string \<Rightarrow> json \<Rightarrow> py_error + IntakeRuntime" where
  "new_runtime lib iid sch =
     (case new_validation_engine lib sch of
        Inl e \<Rightarrow> Inl e
      | Inr engine \<Rightarrow>
          Inr \<lparr>intake_id = iid, rt_schema = sch, validation_engine = engine,
               submissions = Map.empty, state_machines = Map.empty,
               resume_tokens = Map.empty, submission_data = Map.empty,
               idempotency_keys = Map.empty\<rparr>)"

definition get_submission_response :: "IntakeRuntime \<Rightarrow> string \<Rightarrow> py_error + response" where
  "get_submission_response rt sid =
     (case submissions rt sid of
        None \<Rightarrow> Inl (ValueError (''Submission '' @ sid @ '' not found''))
      | Some submission \<Rightarrow>
          (case state_machines rt sid of
             None \<Rightarrow> Inl (ValueError (''State machine for '' @ sid @ '' not found''))
           | Some state_machine \<Rightarrow>
               Inr \<lparr>ok = True, submissionId = sid,
                    resp_state = state_value (state state_machine),
                    resumeToken = rec_resume_token submission,
                    resp_schema = rt_schema rt, missingFields = None\<rparr>))"

text \<open>
  The two tests of \<^verbatim>\<open>if idempotency_key: if idempotency_key in self._idempotency_keys\<close>:
  the submission already stored under a key that is given, not empty and seen before.
\<close>

definition key_given :: "string option \<Rightarrow> bool" where
  "key_given key = (case key of None \<Rightarrow> False | Some k \<Rightarrow> k \<noteq> [])"

definition existing_submission :: "IntakeRuntime \<Rightarrow> string option \<Rightarrow> string option" where
  "existing_submission rt key =
     (if key_given key then idempotency_keys rt (the key) else None)"

text \<open>\<^verbatim>\<open>if initial_fields:\<close> holds for a dict that is given and not empty.\<close>

definition fields_given :: "(string \<times> json) list option \<Rightarrow> bool" where
  "fields_given initial_fields =
     (case initial_fields of None \<Rightarrow> False | Some fs \<Rightarrow> fs \<noteq> [])"

text \<open>
  \<^verbatim>\<open>create_submission\<close>: the reply or the exception, and the runtime as the call leaves
  it. The state machine is an object shared with \<^verbatim>\<open>_state_machines\<close>, so its transition
  shows in the map.
\<close>

definition create_submission ::
  "actor_arg \<Rightarrow> string option \<Rightarrow> (string \<times> json) list option \<Rightarrow> int option \<Rightarrow> draws
     \<Rightarrow> IntakeRuntime \<Rightarrow> (py_error + response) \<times> IntakeRuntime" where
  "create_submission actor_in idempotency_key initial_fields ttl_ms d rt =
     (case existing_submission rt idempotency_key of
        Some existing_submission_id \<Rightarrow> (get_submission_response rt existing_submission_id, rt)
      | None \<Rightarrow>
          (case normalize_actor actor_in of
             Inl e \<Rightarrow> (Inl e, rt)
           | Inr act \<Rightarrow>
               (let sid = ''sub_'' @ take 16 (uuid_hex (submission_uuid d));
                    resume_token = generate_resume_token (token_source d);
                    state_machine = new_state_machine sid DRAFT;
                    rt1 = rt\<lparr>state_machines := (state_machines rt)(sid \<mapsto> state_machine),
                             resume_tokens := (resume_tokens rt)(resume_token \<mapsto> sid),
                             submission_data := (submission_data rt)
                               (sid \<mapsto> (case initial_fields of
                                            None \<Rightarrow> [] | Some fs \<Rightarrow> fs))\<rparr>;
                    moved = (if fields_given initial_fields
                             then transition_to IN_PROGRESS act (event_uuid d) (clock d)
                                    state_machine
                             else (Inr (), state_machine));
                    rt2 = rt1\<lparr>state_machines := (state_machines rt1)(sid \<mapsto> snd moved)\<rparr>
                in case fst moved of
                     Inl e \<Rightarrow> (Inl (InvalidTransition e), rt2)
                   | Inr u \<Rightarrow>
                       (let st = (if fields_given initial_fields then IN_PROGRESS else DRAFT);
                            rt3 = (if key_given idempotency_key
                                   then rt2\<lparr>idempotency_keys :=
                                              (idempotency_keys rt2)(the idempotency_key \<mapsto> sid)\<rparr>
                                   else rt2);
                            reply = \<lparr>ok = True, submissionId = sid,
                                     resp_state = state_value st, resumeToken = resume_token,
                                     resp_schema = rt_schema rt, missingFields = None\<rparr>;
                            checked =
                              (if fields_given initial_fields
                               then (case validate (validation_engine rt)
                                            (JObj (the initial_fields)) of
                                       Inl e \<Rightarrow> Inl e
                                     | Inr validation_result \<Rightarrow>
                                         if \<not> is_valid validation_result
                                         then Inr (reply\<lparr>missingFields :=
                                                Some (case missing_fields validation_result of
                                                        None \<Rightarrow> [] | Some m \<Rightarrow> m)\<rparr>)
                                         else Inr reply)
                               else Inr reply)
                        in case checked of
                             Inl e \<Rightarrow> (Inl e, rt3)
                           | Inr reply' \<Rightarrow>
                               (Inr reply',
                                rt3\<lparr>submissions := (submissions rt3)
                                   (sid \<mapsto> \<lparr>rec_submission_id = sid,
                                             rec_intake_id = intake_id rt,
                                             rec_state = state_value st,
                                             rec_resume_token = resume_token,
                                             rec_created_by = actor_to_dict act,
                                             rec_ttl_ms = ttl_ms\<rparr>)\<rparr>)))))"







section \<open>Timestamps on the wire (datetime.isoformat, datetime.fromisoformat)\<close>

text \<open>
  \<^verbatim>\<open>datetime.isoformat()\<close>: \<^verbatim>\<open>YYYY-MM-DDTHH:MM:SS\<close>, then \<^verbatim>\<open>.ffffff\<close> when the
  microsecond is not zero, then \<^verbatim>\<open>+HH:MM\<close> or \<^verbatim>\<open>-HH:MM\<close> for an aware value.
\<close>

definition zero_padded :: "nat \<Rightarrow> nat \<Rightarrow> string" where
  "zero_padded width n = replicate (width - length (decimal n)) CHR ''0'' @ decimal n"

definition isoformat :: "datetime \<Rightarrow> string" where
  "isoformat dt =
     zero_padded 4 (year dt) @ ''-'' @ zero_padded 2 (month dt) @ ''-''
     @ zero_padded 2 (day dt) @ ''T'' @ zero_padded 2 (hour dt) @ '':''
     @ zero_padded 2 (minute dt) @ '':'' @ zero_padded 2 (second dt)
     @ (if microsecond dt \<noteq> 0 then ''.'' @ zero_padded 6 (microsecond dt) else [])
     @ (case utcoffset dt of
          None \<Rightarrow> []
        | Some off \<Rightarrow>
            (if off < 0 then ''-'' else ''+'') @ zero_padded 2 (nat \<bar>off\<bar> div 60) @ '':''
            @ zero_padded 2 (nat \<bar>off\<bar> mod 60))"

text \<open>
  \<^verbatim>\<open>datetime.fromisoformat\<close>, as Python 3.7 to 3.10 read it: a date \<^verbatim>\<open>YYYY-MM-DD\<close>,
  then nothing or one separator character and a time \<^verbatim>\<open>HH[:MM[:SS[.fff[fff]]]]\<close> with an
  optional offset \<^verbatim>\<open>+HH:MM\<close> or \<^verbatim>\<open>-HH:MM\<close>; the fields are range-checked as the
  \<^verbatim>\<open>datetime\<close> constructor does. Offsets with seconds are outside the model.
\<close>

definition is_digit :: "char \<Rightarrow> bool" where
  "is_digit c \<longleftrightarrow> 48 \<le> (of_char c :: nat) \<and> (of_char c :: nat) \<le> 57"

definition digit_value :: "char \<Rightarrow> nat" where
  "digit_value c = of_char c - 48"

definition digits_value :: "string \<Rightarrow> nat" where
  "digits_value s = foldl (\<lambda>acc c. 10 * acc + digit_value c) 0 s"

definition parse_digits :: "nat \<Rightarrow> string \<Rightarrow> (nat \<times> string) option" where
  "parse_digits n s =
     (if n \<le> length s \<and> list_all is_digit (take n s)
      then Some (digits_value (take n s), drop n s) else None)"

definition parse_fraction :: "string \<Rightarrow> nat option" where
  "parse_fraction s =
     (if length s = 6 \<and> list_all is_digit s then Some (digits_value s)
      else if length s = 3 \<and> list_all is_digit s then Some (digits_value s * 1000)
      else None)"

definition parse_hh_mm_ss_ff :: "string \<Rightarrow> (nat \<times> nat \<times> nat \<times> nat) option" where
  "parse_hh_mm_ss_ff s =
     (case parse_digits 2 s of
        None \<Rightarrow> None
      | Some (h, r1) \<Rightarrow>
          if r1 = [] then Some (h, 0, 0, 0)
          else if hd r1 \<noteq> CHR '':'' then None
          else (case parse_digits 2 (tl r1) of
                  None \<Rightarrow> None
                | Some (m, r2) \<Rightarrow>
                    if r2 = [] then Some (h, m, 0, 0)
                    else if hd r2 \<noteq> CHR '':'' then None
                    else (case parse_digits 2 (tl r2) of
                            None \<Rightarrow> None
                          | Some (sec, r3) \<Rightarrow>
                              if r3 = [] then Some (h, m, sec, 0)
                              else if hd r3 \<noteq> CHR ''.'' then None
                              else (case parse_fraction (tl r3) of
                                      None \<Rightarrow> None
                                    | Some us \<Rightarrow> Some (h, m, sec, us)))))"

definition parse_offset :: "string \<Rightarrow> int option" where
  "parse_offset s =
     (case s of
        [] \<Rightarrow> None
      | sign # rest \<Rightarrow>
          (case parse_digits 2 rest of
             None \<Rightarrow> None
           | Some (h, r1) \<Rightarrow>
               if length r1 \<noteq> 3 \<or> hd r1 \<noteq> CHR '':'' then None
               else (case parse_digits 2 (tl r1) of
                       None \<Rightarrow> None
                     | Some (m, r2) \<Rightarrow>
                         if h < 24 \<and> m < 60
                         then Some ((if sign = CHR ''-'' then - 1 else 1) * int (h * 60 + m))
                         else None)))"

definition is_leap :: "nat \<Rightarrow> bool" where
  "is_leap y \<longleftrightarrow> y mod 4 = 0 \<and> (y mod 100 \<noteq> 0 \<or> y mod 400 = 0)"

definition days_in_month :: "nat \<Rightarrow> nat \<Rightarrow> nat" where
  "days_in_month y m =
     (if m = 2 then (if is_leap y then 29 else 28)
      else if m = 4 \<or> m = 6 \<or> m = 9 \<or> m = 11 then 30 else 31)"

definition valid_datetime :: "datetime \<Rightarrow> bool" where
  "valid_datetime dt \<longleftrightarrow>
     1 \<le> year dt \<and> year dt \<le> 9999 \<and> 1 \<le> month dt \<and> month dt \<le> 12
     \<and> 1 \<le> day dt \<and> day dt \<le> days_in_month (year dt) (month dt)
     \<and> hour dt < 24 \<and> minute dt < 60 \<and> second dt < 60 \<and> microsecond dt < 1000000
     \<and> (case utcoffset dt of None \<Rightarrow> True | Some off \<Rightarrow> - 1440 < off \<and> off < 1440)"

definition parse_date :: "string \<Rightarrow> (nat \<times> nat \<times> nat) option" where
  "parse_date dstr =
     (case parse_digits 4 dstr of
        None \<Rightarrow> None
      | Some (y, r1) \<Rightarrow>
          if take 1 r1 \<noteq> ''-'' then None
          else (case parse_digits 2 (drop 1 r1) of
                  None \<Rightarrow> None
                | Some (m, r2) \<Rightarrow>
                    if take 1 r2 \<noteq> ''-'' then None
                    else (case parse_digits 2 (drop 1 r2) of
                            None \<Rightarrow> None
                          | Some (d, r3) \<Rightarrow> Some (y, m, d))))"

definition parse_time :: "string \<Rightarrow> ((nat \<times> nat \<times> nat \<times> nat) \<times> int option) option" where
  "parse_time tstr =
     (if tstr = [] then Some ((0, 0, 0, 0), None)
      else
        (case parse_hh_mm_ss_ff (takeWhile (\<lambda>c. c \<noteq> CHR ''+'' \<and> c \<noteq> CHR ''-'') tstr) of
           None \<Rightarrow> None
         | Some t \<Rightarrow>
             if dropWhile (\<lambda>c. c \<noteq> CHR ''+'' \<and> c \<noteq> CHR ''-'') tstr = []
             then Some (t, None)
             else (case parse_offset
                          (dropWhile (\<lambda>c. c \<noteq> CHR ''+'' \<and> c \<noteq> CHR ''-'') tstr) of
                     None \<Rightarrow> None
                   | Some off \<Rightarrow> Some (t, Some off))))"

definition invalid_isoformat :: "string \<Rightarrow> py_error + datetime" where
  "invalid_isoformat s = Inl (ValueError (''Invalid isoformat string: '' @ repr_str s))"

definition fromisoformat :: "string \<Rightarrow> py_error + datetime" where
  "fromisoformat s =
     (if length s < 10 \<or> length s = 11 then invalid_isoformat s
      else
        (case parse_date (take 10 s) of
           None \<Rightarrow> invalid_isoformat s
         | Some (y, m, d) \<Rightarrow>
             (case parse_time (drop 11 s) of
                None \<Rightarrow> invalid_isoformat s
              | Some ((h, mi, sec, us), off) \<Rightarrow>
                  if valid_datetime
                       \<lparr>year = y, month = m, day = d, hour = h, minute = mi, second = sec,
                        microsecond = us, utcoffset = off\<rparr>
                  then Inr \<lparr>year = y, month = m, day = d, hour = h, minute = mi,
                            second = sec, microsecond = us, utcoffset = off\<rparr>
                  else invalid_isoformat s)))"

text \<open>\<^verbatim>\<open>ts_str.replace('Z', '+00:00')\<close>.\<close>

definition replace_Z :: "string \<Rightarrow> string" where
  "replace_Z s = concat (map (\<lambda>c. if c = CHR ''Z'' then ''+00:00'' else [c]) s)"

section \<open>JSON text (json.dumps, json.loads)\<close>

text \<open>
  \<^verbatim>\<open>json.dumps(value, separators=(',', ':'))\<close> with the default \<^verbatim>\<open>ensure_ascii\<close>: inside
  a string the quote and the backslash are escaped, newline, return, tab, backspace and
  form feed have their letters, every other character outside the range from space to
  \<^verbatim>\<open>~\<close> is written \<^verbatim>\<open>\u00hh\<close>.
\<close>

definition json_escape :: "char \<Rightarrow> string" where
  "json_escape c =
     (let n = (of_char c :: nat) in
      if n = 34 then [CHR 0x5C, CHR 0x22]
      else if n = 92 then [CHR 0x5C, CHR 0x5C]
      else if n = 10 then [CHR 0x5C, CHR ''n'']
      else if n = 13 then [CHR 0x5C, CHR ''r'']
      else if n = 9 then [CHR 0x5C, CHR ''t'']
      else if n = 8 then [CHR 0x5C, CHR ''b'']
      else if n = 12 then [CHR 0x5C, CHR ''f'']
      else if n < 32 \<or> 126 < n then [CHR 0x5C, CHR ''u'', CHR ''0'', CHR ''0''] @ hex2 n
      else [c])"

definition json_quote :: "string \<Rightarrow> string" where
  "json_quote s = [CHR 0x22] @ concat (map json_escape s) @ [CHR 0x22]"

fun json_dumps :: "json \<Rightarrow> string" where
  "json_dumps JNull = ''null''"
| "json_dumps (JBool b) = (if b then ''true'' else ''false'')"
| "json_dumps (JInt i) = str_int i"
| "json_dumps (JStr s) = json_quote s"
| "json_dumps (JArr xs) = ''['' @ join '','' (map json_dumps xs) @ '']''"
| "json_dumps (JObj kvs) =
     ''{'' @ join '','' (map (\<lambda>kv. json_quote (fst kv) @ '':'' @ json_dumps (snd kv)) kvs)
     @ ''}''"

text \<open>
  \<^verbatim>\<open>json.loads\<close>. A dict keeps one value per key: a repeated key replaces the value at the
  key's first position. Numbers with a fraction or an exponent, the constants
  \<^verbatim>\<open>NaN\<close> and \<^verbatim>\<open>Infinity\<close>, and escapes of code points above 255 denote values outside
  the model. The recursion is bounded by the length of the text, which no parse exceeds.
\<close>

definition dict_set :: "(string \<times> json) list \<Rightarrow> string \<Rightarrow> json \<Rightarrow> (string \<times> json) list" where
  "dict_set kvs k v =
     (if k \<in> fst ` set kvs then map (\<lambda>kv. if fst kv = k then (k, v) else kv) kvs
      else kvs @ [(k, v)])"

definition skip_ws :: "string \<Rightarrow> string" where
  "skip_ws s = dropWhile (\<lambda>c. c = CHR '' '' \<or> c = CHR 0x09 \<or> c = CHR 0x0A \<or> c = CHR 0x0D) s"

definition hex_value :: "char \<Rightarrow> nat option" where
  "hex_value c =
     (let n = (of_char c :: nat) in
      if 48 \<le> n \<and> n \<le> 57 then Some (n - 48)
      else if 97 \<le> n \<and> n \<le> 102 then Some (n - 87)
      else if 65 \<le> n \<and> n \<le> 70 then Some (n - 55)
      else None)"

definition parse_hex4 :: "string \<Rightarrow> nat option" where
  "parse_hex4 s =
     (case map hex_value (take 4 s) of
        [Some a, Some b, Some c, Some d] \<Rightarrow> Some (((a * 16 + b) * 16 + c) * 16 + d)
      | _ \<Rightarrow> None)"

text \<open>The body of a string, after its opening quote: the text and what follows it.\<close>

fun parse_string_body :: "nat \<Rightarrow> string \<Rightarrow> string \<Rightarrow> py_error + (string \<times> string)" where
  "parse_string_body 0 s acc = Inl (ValueError ''Unterminated string'')"
| "parse_string_body (Suc fuel) [] acc = Inl (ValueError ''Unterminated string'')"
| "parse_string_body (Suc fuel) (c # cs) acc =
     (if c = CHR 0x22 then Inr (acc, cs)
      else if (of_char c :: nat) < 32 then Inl (ValueError ''Invalid control character'')
      else if c \<noteq> CHR 0x5C then parse_string_body fuel cs (acc @ [c])
      else (case cs of
              [] \<Rightarrow> Inl (ValueError ''Unterminated string'')
            | e # rest \<Rightarrow>
                if e = CHR 0x22 \<or> e = CHR 0x5C \<or> e = CHR ''/''
                then parse_string_body fuel rest (acc @ [e])
                else if e = CHR ''b'' then parse_string_body fuel rest (acc @ [CHR 0x08])
                else if e = CHR ''f'' then parse_string_body fuel rest (acc @ [CHR 0x0C])
                else if e = CHR ''n'' then parse_string_body fuel rest (acc @ [CHR 0x0A])
                else if e = CHR ''r'' then parse_string_body fuel rest (acc @ [CHR 0x0D])
                else if e = CHR ''t'' then parse_string_body fuel rest (acc @ [CHR 0x09])
                else if e = CHR ''u'' then
                  (case parse_hex4 rest of
                     None \<Rightarrow> Inl (ValueError ''Invalid unicode escape'')
                   | Some n \<Rightarrow>
                       if n < 256 then parse_string_body fuel (drop 4 rest) (acc @ [char_of n])
                       else Inl (Unannotated ''code point above 255''))
                else Inl (ValueError ''Invalid escape'')))"

text \<open>An integer literal \<^verbatim>\<open>-?(0|[1-9][0-9]*)\<close>, not followed by a fraction or an exponent.\<close>

definition parse_number :: "string \<Rightarrow> py_error + (json \<times> string)" where
  "parse_number s =
     (let negative = (s \<noteq> [] \<and> hd s = CHR ''-'');
          body = (if negative then tl s else s);
          ds = (if body \<noteq> [] \<and> hd body = CHR ''0'' then ''0'' else takeWhile is_digit body);
          rest = drop (length ds) body
      in if ds = [] then Inl (ValueError ''Expecting value'')
         else if rest \<noteq> [] \<and> (hd rest = CHR ''.'' \<or> hd rest = CHR ''e'' \<or> hd rest = CHR ''E'')
         then Inl (Unannotated ''float'')
         else Inr (JInt ((if negative then - 1 else 1) * int (digits_value ds)), rest))"

fun parse_value :: "nat \<Rightarrow> string \<Rightarrow> py_error + (json \<times> string)"
  and parse_elements :: "nat \<Rightarrow> string \<Rightarrow> json list \<Rightarrow> py_error + (json \<times> string)"
  and parse_members ::
    "nat \<Rightarrow> string \<Rightarrow> (string \<times> json) list \<Rightarrow> py_error + (json \<times> string)" where
  "parse_value 0 s = Inl (ValueError ''Expecting value'')"
| "parse_value (Suc fuel) s =
     (case s of
        [] \<Rightarrow> Inl (ValueError ''Expecting value'')
      | c # cs \<Rightarrow>
          if c = CHR 0x22 then
            (case parse_string_body (length cs) cs [] of
               Inl e \<Rightarrow> Inl e
             | Inr (str, rest) \<Rightarrow> Inr (JStr str, rest))
          else if c = CHR ''{'' then
            (if skip_ws cs \<noteq> [] \<and> hd (skip_ws cs) = CHR ''}''
             then Inr (JObj [], tl (skip_ws cs))
             else parse_members fuel (skip_ws cs) [])
          else if c = CHR ''['' then
            (if skip_ws cs \<noteq> [] \<and> hd (skip_ws cs) = CHR '']''
             then Inr (JArr [], tl (skip_ws cs))
             else parse_elements fuel (skip_ws cs) [])
          else if take 4 s = ''null'' then Inr (JNull, drop 4 s)
          else if take 4 s = ''true'' then Inr (JBool True, drop 4 s)
          else if take 5 s = ''false'' then Inr (JBool False, drop 5 s)
          else if take 3 s = ''NaN'' \<or> take 8 s = ''Infinity'' \<or> take 9 s = ''-Infinity''
          then Inl (Unannotated ''float'')
          else parse_number s)"
| "parse_elements 0 s acc = Inl (ValueError ''Expecting value'')"
| "parse_elements (Suc fuel) s acc =
     (case parse_value fuel s of
        Inl e \<Rightarrow> Inl e
      | Inr (v, rest) \<Rightarrow>
          (case skip_ws rest of
             [] \<Rightarrow> Inl (ValueError ''Expecting , delimiter'')
           | c # cs \<Rightarrow>
               if c = CHR '']'' then Inr (JArr (acc @ [v]), cs)
               else if c = CHR '','' then parse_elements fuel (skip_ws cs) (acc @ [v])
               else Inl (ValueError ''Expecting , delimiter'')))"
| "parse_members 0 s acc = Inl (ValueError ''Expecting property name'')"
| "parse_members (Suc fuel) s acc =
     (case s of
        [] \<Rightarrow> Inl (ValueError ''Expecting property name'')
      | q # cs \<Rightarrow>
          if q \<noteq> CHR 0x22 then Inl (ValueError ''Expecting property name'')
          else
            (case parse_string_body (length cs) cs [] of
               Inl e \<Rightarrow> Inl e
             | Inr (k, rest) \<Rightarrow>
                 (case skip_ws rest of
                    [] \<Rightarrow> Inl (ValueError ''Expecting : delimiter'')
                  | colon # after \<Rightarrow>
                      if colon \<noteq> CHR '':'' then Inl (ValueError ''Expecting : delimiter'')
                      else
                        (case parse_value fuel (skip_ws after) of
                           Inl e \<Rightarrow> Inl e
                         | Inr (v, rest') \<Rightarrow>
                             (case skip_ws rest' of
                                [] \<Rightarrow> Inl (ValueError ''Expecting , delimiter'')
                              | c # cs' \<Rightarrow>
                                  if c = CHR ''}'' then Inr (JObj (dict_set acc k v), cs')
                                  else if c = CHR '','' then
                                    parse_members fuel (skip_ws cs') (dict_set acc k v)
                                  else Inl (ValueError ''Expecting , delimiter''))))))"

definition json_loads :: "string \<Rightarrow> py_error + json" where
  "json_loads s =
     (case parse_value (Suc (length s)) (skip_ws s) of
        Inl e \<Rightarrow> Inl e
      | Inr (v, rest) \<Rightarrow> if skip_ws rest = [] then Inr v else Inl (ValueError ''Extra data''))"

text \<open>The printable characters of ASCII.\<close>

definition printable :: "char \<Rightarrow> bool" where
  "printable c \<longleftrightarrow> 32 \<le> (of_char c :: nat) \<and> (of_char c :: nat) \<le> 126"

section \<open>Events on the wire (formbridge/events.py, formbridge/types.py)\<close>

text \<open>\<^verbatim>\<open>IntakeEvent.to_dict\<close> and \<^verbatim>\<open>IntakeEvent.to_jsonl\<close>.\<close>

definition to_dict :: "IntakeEvent \<Rightarrow> json" where
  "to_dict e =
     JObj ([(''eventId'', JStr (event_id e)),
            (''type'', JStr (event_type_value (ev_type e))),
            (''submissionId'', JStr (ev_submission_id e)),
            (''ts'', JStr (isoformat (ts e))),
            (''actor'', actor_to_dict (actor e)),
            (''state'', JStr (state_value (ev_state e)))]
           @ (case payload e of None \<Rightarrow> [] | Some p \<Rightarrow> [(''payload'', JObj p)]))"

definition to_jsonl :: "IntakeEvent \<Rightarrow> string" where
  "to_jsonl e = json_dumps (to_dict e)"

text \<open>
  \<^verbatim>\<open>data[key]\<close> and \<^verbatim>\<open>data.get(key)\<close> on a value read from JSON, and the enum
  constructors \<^verbatim>\<open>EventType(value)\<close>, \<^verbatim>\<open>SubmissionState(value)\<close>.
\<close>

definition getitem :: "json \<Rightarrow> string \<Rightarrow> py_error + json" where
  "getitem d k =
     (case d of
        JObj kvs \<Rightarrow> (case map_of kvs k of None \<Rightarrow> Inl (KeyError k) | Some v \<Rightarrow> Inr v)
      | _ \<Rightarrow> Inl (TypeError (type_name d @ '' cannot be indexed with a string key'')))"

definition dict_get :: "json \<Rightarrow> string \<Rightarrow> json option" where
  "dict_get d k = (case d of JObj kvs \<Rightarrow> map_of kvs k | _ \<Rightarrow> None)"

definition event_type_of :: "json \<Rightarrow> py_error + EventType" where
  "event_type_of v =
     (case [t \<leftarrow> [SUBMISSION_CREATED, FIELD_UPDATED, VALIDATION_PASSED, VALIDATION_FAILED,
                  UPLOAD_REQUESTED, UPLOAD_COMPLETED, UPLOAD_FAILED, SUBMISSION_SUBMITTED,
                  REVIEW_REQUESTED, REVIEW_APPROVED, REVIEW_REJECTED, DELIVERY_ATTEMPTED,
                  DELIVERY_SUCCEEDED, DELIVERY_FAILED, SUBMISSION_FINALIZED,
                  SUBMISSION_CANCELLED, SUBMISSION_EXPIRED, HANDOFF_LINK_ISSUED,
                  HANDOFF_RESUMED]. JStr (event_type_value t) = v] of
        t # _ \<Rightarrow> Inr t
      | [] \<Rightarrow> Inl (ValueError (py_repr v @ '' is not a valid EventType'')))"

definition submission_state_of :: "json \<Rightarrow> py_error + SubmissionState" where
  "submission_state_of v =
     (case [s \<leftarrow> [DRAFT, IN_PROGRESS, AWAITING_INPUT, AWAITING_UPLOAD, SUBMITTED, NEEDS_REVIEW,
                  APPROVED, REJECTED, FINALIZED, CANCELLED, EXPIRED].
              JStr (state_value s) = v] of
        s # _ \<Rightarrow> Inr s
      | [] \<Rightarrow> Inl (ValueError (py_repr v @ '' is not a valid SubmissionState'')))"

text \<open>
  What a field read from JSON holds when it fits its annotation: a \<^verbatim>\<open>str\<close>, an
  \<^verbatim>\<open>Optional[str]\<close>, an \<^verbatim>\<open>Optional[Dict[str, Any]]\<close>; \<open>None\<close> when it does not.
\<close>

fun as_str :: "json \<Rightarrow> string option" where
  "as_str (JStr s) = Some s"
| "as_str v = None"

fun as_optional_str :: "json \<Rightarrow> string option option" where
  "as_optional_str JNull = Some None"
| "as_optional_str (JStr s) = Some (Some s)"
| "as_optional_str v = None"

fun as_optional_dict :: "json \<Rightarrow> (string \<times> json) list option option" where
  "as_optional_dict JNull = Some None"
| "as_optional_dict (JObj kvs) = Some (Some kvs)"
| "as_optional_dict v = None"

text \<open>
  \<^verbatim>\<open>Actor.from_dict\<close>: \<^verbatim>\<open>kind\<close> and \<^verbatim>\<open>id\<close> must be there, \<^verbatim>\<open>name\<close> defaults to
  \<^verbatim>\<open>None\<close> and \<^verbatim>\<open>metadata\<close> to the empty dict. The exceptions come first, in the order
  Python meets them; a value that its annotation excludes is stored by Python as it is.
\<close>

fun actor_kind_from :: "json \<Rightarrow> py_error + ActorKind option" where
  "actor_kind_from (JStr ks) =
     (case actor_kind_of ks of Inl e \<Rightarrow> Inl e | Inr k \<Rightarrow> Inr (Some k))"
| "actor_kind_from v = Inr None"

definition actor_from_dict :: "json \<Rightarrow> py_error + Actor" where
  "actor_from_dict d =
     (case getitem d ''kind'' of
        Inl e \<Rightarrow> Inl e
      | Inr kind_value \<Rightarrow>
     (case actor_kind_from kind_value of
        Inl e \<Rightarrow> Inl e
      | Inr kind_opt \<Rightarrow>
     (case getitem d ''id'' of
        Inl e \<Rightarrow> Inl e
      | Inr id_value \<Rightarrow>
     (case kind_opt of
        None \<Rightarrow> Inl (Unannotated ''Actor.kind'')
      | Some k \<Rightarrow>
     (case as_str id_value of
        None \<Rightarrow> Inl (Unannotated ''Actor.id'')
      | Some i \<Rightarrow>
     (case as_optional_str (case dict_get d ''name'' of None \<Rightarrow> JNull | Some v \<Rightarrow> v) of
        None \<Rightarrow> Inl (Unannotated ''Actor.name'')
      | Some n \<Rightarrow>
     (case as_optional_dict
             (case dict_get d ''metadata'' of None \<Rightarrow> JObj [] | Some v \<Rightarrow> v) of
        None \<Rightarrow> Inl (Unannotated ''Actor.metadata'')
      | Some m \<Rightarrow>
          Inr \<lparr>kind = k, actor_id = i, name = n, metadata = m\<rparr>)))))))"

text \<open>\<^verbatim>\<open>IntakeEvent.from_dict\<close>.\<close>

fun timestamp_from :: "json \<Rightarrow> py_error + datetime" where
  "timestamp_from (JStr ts_str) = fromisoformat (replace_Z ts_str)"
| "timestamp_from v = Inl (AttributeError ''replace'')"

definition from_dict :: "json \<Rightarrow> py_error + IntakeEvent" where
  "from_dict d =
     (case getitem d ''ts'' of
        Inl e \<Rightarrow> Inl e
      | Inr ts_value \<Rightarrow>
     (case timestamp_from ts_value of
        Inl e \<Rightarrow> Inl e
      | Inr t \<Rightarrow>
     (case getitem d ''actor'' of
        Inl e \<Rightarrow> Inl e
      | Inr actor_value \<Rightarrow>
     (case actor_from_dict actor_value of
        Inl e \<Rightarrow> Inl e
      | Inr a \<Rightarrow>
     (case getitem d ''eventId'' of
        Inl e \<Rightarrow> Inl e
      | Inr id_value \<Rightarrow>
     (case getitem d ''type'' of
        Inl e \<Rightarrow> Inl e
      | Inr type_value \<Rightarrow>
     (case event_type_of type_value of
        Inl e \<Rightarrow> Inl e
      | Inr et \<Rightarrow>
     (case getitem d ''submissionId'' of
        Inl e \<Rightarrow> Inl e
      | Inr sid_value \<Rightarrow>
     (case getitem d ''state'' of
        Inl e \<Rightarrow> Inl e
      | Inr state_value' \<Rightarrow>
     (case submission_state_of state_value' of
        Inl e \<Rightarrow> Inl e
      | Inr st \<Rightarrow>
     (case as_str id_value of
        None \<Rightarrow> Inl (Unannotated ''IntakeEvent.event_id'')
      | Some eid \<Rightarrow>
     (case as_str sid_value of
        None \<Rightarrow> Inl (Unannotated ''IntakeEvent.submission_id'')
      | Some sid \<Rightarrow>
     (case as_optional_dict (case dict_get d ''payload'' of None \<Rightarrow> JNull | Some v \<Rightarrow> v) of
        None \<Rightarrow> Inl (Unannotated ''IntakeEvent.payload'')
      | Some p \<Rightarrow>
          Inr \<lparr>event_id = eid, ev_type = et, ev_submission_id = sid, ts = t, actor = a,
               ev_state = st, payload = p\<rparr>)))))))))))))"

text \<open>
  Parsing a line of the event stream back: \<^verbatim>\<open>IntakeEvent.from_dict(json.loads(line))\<close>.
\<close>

definition event_from_jsonl :: "string \<Rightarrow> py_error + IntakeEvent" where
  "event_from_jsonl line =
     (case json_loads line of Inl e \<Rightarrow> Inl e | Inr d \<Rightarrow> from_dict d)"

section \<open>Event emitter (formbridge/events.py)\<close>

text \<open>
  How a listener call can end other than by returning: with an exception that is an
  instance of \<^verbatim>\<open>Exception\<close>, or with one that derives from \<^verbatim>\<open>BaseException\<close> only
  (\<^verbatim>\<open>KeyboardInterrupt\<close>, \<^verbatim>\<open>SystemExit\<close>, \<^verbatim>\<open>GeneratorExit\<close>). The string is the
  class name.
\<close>

datatype raised = ExceptionInstance string | BaseExceptionOnly string

text \<open>
  A listener is a Python callable. The emitter keeps callables in lists and compares them
  by identity (\<^verbatim>\<open>list.remove\<close>), so a callable is known here by a number; what calling it
  does is told by a table from numbers to behaviours, the \<open>call\<close> argument of \<open>emit\<close>.
\<close>

type_synonym listener_id = nat

text \<open>
  The emitter. \<^verbatim>\<open>_listeners\<close> is a dict from event types to list objects and
  \<^verbatim>\<open>_any_listeners\<close> is a list object. \<^verbatim>\<open>emit\<close> iterates over these list objects while
  the listeners it calls may change them through \<^verbatim>\<open>on\<close>, \<^verbatim>\<open>off\<close>, \<^verbatim>\<open>off_any\<close>,
  \<^verbatim>\<open>on_any\<close> and \<^verbatim>\<open>clear\<close>, so the list objects live in a store: \<open>lists\<close> gives the
  content of the list object at an address, \<open>listeners\<close> the address of the list object of
  an event type, \<open>any_listeners\<close> the address of the wildcard list, and \<open>next_list\<close> the
  address of the next list object to be made.
\<close>

record EventEmitter =
  listeners :: "EventType \<Rightarrow> nat option"
  any_listeners :: nat
  lists :: "nat \<Rightarrow> listener_id list"
  next_list :: nat

text \<open>
  \<^verbatim>\<open>EventListener = Callable[[IntakeEvent], None]\<close>, called for its effect. From the event,
  the emitter and the state \<open>'w\<close> of whatever else the listeners act on, a listener yields
  how the call ended (\<open>None\<close>: it returned), the emitter and the state it leaves behind.
\<close>

type_synonym 'w EventListener =
  "IntakeEvent \<Rightarrow> EventEmitter \<times> 'w \<Rightarrow> raised option \<times> EventEmitter \<times> 'w"

definition new_emitter :: EventEmitter where
  "new_emitter =
     \<lparr>listeners = (\<lambda>t. None), any_listeners = 0, lists = (\<lambda>a. []), next_list = 1\<rparr>"

definition on :: "EventType \<Rightarrow> listener_id \<Rightarrow> EventEmitter \<Rightarrow> EventEmitter" where
  "on event_type listener em =
     (let em1 = (if listeners em event_type = None
                 then em\<lparr>listeners := (listeners em)(event_type \<mapsto> next_list em),
                         lists := (lists em)(next_list em := []),
                         next_list := next_list em + 1\<rparr>
                 else em);
          a = the (listeners em1 event_type)
      in em1\<lparr>lists := (lists em1)(a := lists em1 a @ [listener])\<rparr>)"

definition on_any :: "listener_id \<Rightarrow> EventEmitter \<Rightarrow> EventEmitter" where
  "on_any listener em =
     em\<lparr>lists := (lists em)(any_listeners em := lists em (any_listeners em) @ [listener])\<rparr>"

text \<open>
  \<^verbatim>\<open>list.remove\<close> takes out the first occurrence; its \<^verbatim>\<open>ValueError\<close> for a listener
  that is not in the list is caught and ignored.
\<close>

definition off :: "EventType \<Rightarrow> listener_id \<Rightarrow> EventEmitter \<Rightarrow> EventEmitter" where
  "off event_type listener em =
     (case listeners em event_type of
        None \<Rightarrow> em
      | Some a \<Rightarrow> em\<lparr>lists := (lists em)(a := remove1 listener (lists em a))\<rparr>)"

definition off_any :: "listener_id \<Rightarrow> EventEmitter \<Rightarrow> EventEmitter" where
  "off_any listener em =
     em\<lparr>lists := (lists em)
          (any_listeners em := remove1 listener (lists em (any_listeners em)))\<rparr>"

text \<open>
  \<^verbatim>\<open>clear\<close> empties the dict, which leaves the list objects it held as they are, and
  empties the wildcard list object in place.
\<close>

definition clear :: "EventEmitter \<Rightarrow> EventEmitter" where
  "clear em = em\<lparr>listeners := (\<lambda>t. None), lists := (lists em)(any_listeners em := [])\<rparr>"

text \<open>
  \<^verbatim>\<open>except Exception\<close> catches the instances of \<^verbatim>\<open>Exception\<close>; everything else that is
  raised escapes it.
\<close>

fun escapes :: "raised option \<Rightarrow> bool" where
  "escapes (Some (BaseExceptionOnly x)) = True"
| "escapes (Some (ExceptionInstance x)) = False"
| "escapes None = False"

text \<open>
  One \<^verbatim>\<open>for listener in ...: try: listener(event) except Exception: pass\<close> loop over the
  list object at address \<open>a\<close>. The iterator of a Python list holds an index \<open>i\<close>: at each
  step it compares the index with the length the list has then, and yields the element
  at the index. The listener called may have changed the list. The loop need not end (a
  listener may append to the list it is called from); \<open>None\<close> is a loop that does not end.
\<close>

partial_function (option) call_listeners ::
  "(listener_id \<Rightarrow> 'w EventListener) \<Rightarrow> nat \<Rightarrow> nat \<Rightarrow> IntakeEvent \<Rightarrow> EventEmitter \<times> 'w
     \<Rightarrow> (raised option \<times> EventEmitter \<times> 'w) option" where
  "call_listeners call a i event s =
     (if i < length (lists (fst s) a)
      then (let out = call (lists (fst s) a ! i) event s
            in if escapes (fst out) then Some out
               else call_listeners call a (i + 1) event (snd out))
      else Some (None, s))"

text \<open>
  \<^verbatim>\<open>emit\<close>: the loop over the list object of the event's type, if the dict has one when
  \<^verbatim>\<open>emit\<close> is entered, then the loop over the wildcard list object. The result is the
  exception that \<^verbatim>\<open>emit\<close> raises to its caller, if any, and the emitter and the state
  left behind.
\<close>

definition emit ::
  "(listener_id \<Rightarrow> 'w EventListener) \<Rightarrow> EventEmitter \<Rightarrow> IntakeEvent \<Rightarrow> 'w
     \<Rightarrow> (raised option \<times> EventEmitter \<times> 'w) option" where
  "emit call em event w =
     (case listeners em (ev_type event) of
        None \<Rightarrow> call_listeners call (any_listeners em) 0 event (em, w)
      | Some a \<Rightarrow>
          (case call_listeners call a 0 event (em, w) of
             None \<Rightarrow> None
           | Some out \<Rightarrow>
               if fst out \<noteq> None then Some out
               else call_listeners call (any_listeners (fst (snd out))) 0 event (snd out)))"

text \<open>
  A history of calls on a fresh emitter, in the order they were made, and the listeners it
  leaves registered for one event type and as wildcards, in registration order.
\<close>

datatype emitter_call =
  On EventType listener_id | OnAny listener_id | Off EventType listener_id
  | OffAny listener_id | Clear

fun perform :: "emitter_call \<Rightarrow> EventEmitter \<Rightarrow> EventEmitter" where
  "perform (On t l) em = on t l em"
| "perform (OnAny l) em = on_any l em"
| "perform (Off t l) em = off t l em"
| "perform (OffAny l) em = off_any l em"
| "perform Clear em = clear em"

definition after_calls :: "emitter_call list \<Rightarrow> EventEmitter" where
  "after_calls cs = foldl (\<lambda>em c. perform c em) new_emitter cs"

fun registered_step :: "EventType \<Rightarrow> listener_id list \<Rightarrow> emitter_call \<Rightarrow> listener_id list" where
  "registered_step t ls (On t' l) = (if t' = t then ls @ [l] else ls)"
| "registered_step t ls (Off t' l) = (if t' = t then remove1 l ls else ls)"
| "registered_step t ls Clear = []"
| "registered_step t ls (OnAny l) = ls"
| "registered_step t ls (OffAny l) = ls"

definition specific_of :: "EventType \<Rightarrow> emitter_call list \<Rightarrow> listener_id list" where
  "specific_of t cs = foldl (registered_step t) [] cs"

fun wildcard_step :: "listener_id list \<Rightarrow> emitter_call \<Rightarrow> listener_id list" where
  "wildcard_step ls (OnAny l) = ls @ [l]"
| "wildcard_step ls (OffAny l) = remove1 l ls"
| "wildcard_step ls Clear = []"
| "wildcard_step ls (On t l) = ls"
| "wildcard_step ls (Off t l) = ls"

definition wildcard_of :: "emitter_call list \<Rightarrow> listener_id list" where
  "wildcard_of cs = foldl wildcard_step [] cs"

text \<open>
  The emitter \<open>em\<close> holds what the history \<open>cs\<close> registered: the wildcard list object is
  the one at address 0, an event type without a list object has no listener, and the list
  objects of the event types are different objects holding the listeners of their type.
\<close>

definition registry_of :: "emitter_call list \<Rightarrow> EventEmitter \<Rightarrow> bool" where
  "registry_of cs em \<longleftrightarrow>
     any_listeners em = 0 \<and> 0 < next_list em \<and> lists em 0 = wildcard_of cs
     \<and> (\<forall>t. listeners em t = None \<longrightarrow> specific_of t cs = [])
     \<and> (\<forall>t a. listeners em t = Some a \<longrightarrow>
            0 < a \<and> a < next_list em \<and> lists em a = specific_of t cs)
     \<and> (\<forall>t t' a. listeners em t = Some a \<and> listeners em t' = Some a \<longrightarrow> t = t')"

text \<open>
  Every listener of a list run once on the emitter \<open>em\<close>, each on the state the one before
  it left.
\<close>

definition run_in_order ::
  "(listener_id \<Rightarrow> 'w EventListener) \<Rightarrow> listener_id list \<Rightarrow> IntakeEvent \<Rightarrow> EventEmitter
     \<Rightarrow> 'w \<Rightarrow> 'w" where
  "run_in_order call ls event em w = foldl (\<lambda>w l. snd (snd (call l event (em, w)))) w ls"

text \<open>
  The listeners of a list that is given once and for all, run in order up to the first
  one that raises something \<^verbatim>\<open>except Exception\<close> does not catch.
\<close>

fun until_escape ::
  "(listener_id \<Rightarrow> 'w EventListener) \<Rightarrow> listener_id list \<Rightarrow> IntakeEvent \<Rightarrow> EventEmitter \<times> 'w
     \<Rightarrow> raised option \<times> EventEmitter \<times> 'w" where
  "until_escape call [] event s = (None, s)"
| "until_escape call (l # ls) event s =
     (let out = call l event s
      in if escapes (fst out) then out else until_escape call ls event (snd out))"

text \<open>
  Two tables of listeners. A listener of \<open>noting how\<close> notes its number in a list and then
  returns or raises as \<open>how\<close> tells, leaving the emitter alone. A listener of \<open>leaving\<close>
  notes its number and takes itself off the wildcard list, as a listener meant to run
  once does.
\<close>

definition noting :: "(listener_id \<Rightarrow> raised option) \<Rightarrow> listener_id \<Rightarrow> nat list EventListener" where
  "noting how l = (\<lambda>event s. (how l, fst s, snd s @ [l]))"

definition leaving :: "listener_id \<Rightarrow> nat list EventListener" where
  "leaving l = (\<lambda>event s. (None, off_any l (fst s), snd s @ [l]))"

section \<open>Sample values for the worked examples\<close>

definition bot_1 :: Actor where
  "bot_1 = \<lparr>kind = AGENT, actor_id = ''bot_1'', name = None, metadata = None\<rparr>"

definition jan15 :: datetime where
  "jan15 = \<lparr>year = 2024, month = 1, day = 15, hour = 10, minute = 30, second = 0,
             microsecond = 0, utcoffset = Some 0\<rparr>"

definition draft_machine :: SubmissionStateMachine where
  "draft_machine = new_state_machine ''sub_123'' DRAFT"

definition two_calls :: "transition_call list" where
  "two_calls =
     [\<lparr>call_target = IN_PROGRESS, call_actor = bot_1, call_uuid = 1, call_now = jan15\<rparr>,
      \<lparr>call_target = SUBMITTED, call_actor = bot_1, call_uuid = 2, call_now = jan15\<rparr>]"

definition field_updated_event :: IntakeEvent where
  "field_updated_event =
     \<lparr>event_id = ''evt_001'', ev_type = FIELD_UPDATED, ev_submission_id = ''sub_123'',
      ts = jan15, actor = bot_1, ev_state = IN_PROGRESS, payload = None\<rparr>"

text \<open>
  Five listeners subscribed and one of them unsubscribed again; of those left, listener 1
  raises \<^verbatim>\<open>RuntimeError\<close> and listener 4 raises \<^verbatim>\<open>ValueError\<close>.
\<close>

definition mixed_calls :: "emitter_call list" where
  "mixed_calls =
     [On FIELD_UPDATED 1, OnAny 3, On SUBMISSION_SUBMITTED 9, On FIELD_UPDATED 5,
      On FIELD_UPDATED 2, Off FIELD_UPDATED 5, OnAny 4]"

definition mixed_outcome :: "listener_id \<Rightarrow> raised option" where
  "mixed_outcome l =
     (if l = 1 then Some (ExceptionInstance ''RuntimeError'')
      else if l = 4 then Some (ExceptionInstance ''ValueError'') else None)"

text \<open>Three wildcard listeners, the second of which raises \<^verbatim>\<open>KeyboardInterrupt\<close>.\<close>

definition interrupting_calls :: "emitter_call list" where
  "interrupting_calls = [OnAny 1, OnAny 2, OnAny 3]"

definition interrupting_outcome :: "listener_id \<Rightarrow> raised option" where
  "interrupting_outcome l =
     (if l = 2 then Some (BaseExceptionOnly ''KeyboardInterrupt'') else None)"

text \<open>
  A stand-in for the external validator in the worked examples: it accepts every schema
  and reports, for the documents listed, the diagnostics written beside them, which are
  those of \<^verbatim>\<open>jsonschema\<close> for these documents. The worked examples consult it on the
  documents listed only.
\<close>

definition reporting :: "(json \<times> ValidationError list) list \<Rightarrow> Draft7Validator" where
  "reporting table =
     \<lparr>check_schema = (\<lambda>sch. True),
      iter_errors = (\<lambda>sch doc. case map_of table doc of Some es \<Rightarrow> Inr es | None \<Rightarrow> Inr [])\<rparr>"

text \<open>
  Schema \<^verbatim>\<open>{"type": "object", "properties": {"name": {"type": "string"}},
  "required": ["name"]}\<close> and document \<^verbatim>\<open>{"name": 123}\<close>: one \<^verbatim>\<open>type\<close> diagnostic.
\<close>

definition name_schema :: json where
  "name_schema =
     JObj [(''type'', JStr ''object''),
           (''properties'', JObj [(''name'', JObj [(''type'', JStr ''string'')])]),
           (''required'', JArr [JStr ''name''])]"

definition name_123 :: json where
  "name_123 = JObj [(''name'', JInt 123)]"

definition name_123_diagnostic :: ValidationError where
  "name_123_diagnostic =
     \<lparr>ve_path = [Key ''name''], ve_validator = ''type'', ve_validator_value = JStr ''string'',
      ve_instance = JInt 123,
      ve_message = ''123 is not of type '' @ [CHR 39] @ ''string'' @ [CHR 39]\<rparr>"

text \<open>
  Schema \<^verbatim>\<open>{"type": "object", "required": ["name", "email"], "properties": {"name":
  {"type": "string"}, "email": {"type": "string", "format": "email"}}}\<close>. The engine
  builds \<^verbatim>\<open>Draft7Validator(schema)\<close> without a format checker, so the \<^verbatim>\<open>format\<close>
  keyword yields no diagnostic: the document \<^verbatim>\<open>{"email": "nope"}\<close> gets the one
  \<^verbatim>\<open>required\<close> diagnostic for \<^verbatim>\<open>name\<close>, and the document \<^verbatim>\<open>{"email": 5}\<close> gets
  that and a \<^verbatim>\<open>type\<close> diagnostic for \<^verbatim>\<open>email\<close>.
\<close>

definition signup_schema :: json where
  "signup_schema =
     JObj [(''type'', JStr ''object''),
           (''required'', JArr [JStr ''name'', JStr ''email'']),
           (''properties'',
              JObj [(''name'', JObj [(''type'', JStr ''string'')]),
                    (''email'', JObj [(''type'', JStr ''string''),
                                      (''format'', JStr ''email'')])])]"

definition email_nope :: json where
  "email_nope = JObj [(''email'', JStr ''nope'')]"

definition email_nope_diagnostics :: "ValidationError list" where
  "email_nope_diagnostics =
     [\<lparr>ve_path = [], ve_validator = ''required'',
       ve_validator_value = JArr [JStr ''name'', JStr ''email''],
       ve_instance = email_nope,
       ve_message = [CHR 39] @ ''name'' @ [CHR 39] @ '' is a required property''\<rparr>]"

definition email_5 :: json where
  "email_5 = JObj [(''email'', JInt 5)]"

definition email_5_diagnostics :: "ValidationError list" where
  "email_5_diagnostics =
     [\<lparr>ve_path = [], ve_validator = ''required'',
       ve_validator_value = JArr [JStr ''name'', JStr ''email''],
       ve_instance = email_5,
       ve_message = [CHR 39] @ ''name'' @ [CHR 39] @ '' is a required property''\<rparr>,
      \<lparr>ve_path = [Key ''email''], ve_validator = ''type'',
       ve_validator_value = JStr ''string'', ve_instance = JInt 5,
       ve_message = ''5 is not of type '' @ [CHR 39] @ ''string'' @ [CHR 39]\<rparr>]"

definition signup_lib :: Draft7Validator where
  "signup_lib =
     reporting [(email_nope, email_nope_diagnostics), (email_5, email_5_diagnostics)]"





text \<open>
  Schema \<^verbatim>\<open>{"$ref": "#/definitions/missing"}\<close>: \<^verbatim>\<open>check_schema\<close> accepts it, as the
  reference is a well-formed one, and \<^verbatim>\<open>iter_errors\<close> raises on every document when it
  finds nothing to resolve the reference to.
\<close>

definition dangling_ref_schema :: json where
  "dangling_ref_schema = JObj [(''$ref'', JStr ''#/definitions/missing'')]"

definition dangling_ref_lib :: Draft7Validator where
  "dangling_ref_lib =
     \<lparr>check_schema = (\<lambda>sch. True),
      iter_errors = (\<lambda>sch doc. Inl (LibraryError ''_WrappedReferencingError''))\<rparr>"

text \<open>
  Schema \<^verbatim>\<open>{"type": "object", "properties": {"a.b": {"type": "string"}, "a": {"type":
  "object", "required": ["b"]}}}\<close> and document \<^verbatim>\<open>{"a.b": 5, "a": {}}\<close>: the property
  named \<^verbatim>\<open>a.b\<close> has the wrong type, and the object under \<^verbatim>\<open>a\<close> lacks \<^verbatim>\<open>b\<close>.
\<close>

definition dotted_schema :: json where
  "dotted_schema =
     JObj [(''type'', JStr ''object''),
           (''properties'',
              JObj [(''a.b'', JObj [(''type'', JStr ''string'')]),
                    (''a'', JObj [(''type'', JStr ''object''),
                                  (''required'', JArr [JStr ''b''])])])]"

definition dotted_doc :: json where
  "dotted_doc = JObj [(''a.b'', JInt 5), (''a'', JObj [])]"

definition dotted_diagnostics :: "ValidationError list" where
  "dotted_diagnostics =
     [\<lparr>ve_path = [Key ''a.b''], ve_validator = ''type'', ve_validator_value = JStr ''string'',
       ve_instance = JInt 5,
       ve_message = ''5 is not of type '' @ [CHR 39] @ ''string'' @ [CHR 39]\<rparr>,
      \<lparr>ve_path = [Key ''a''], ve_validator = ''required'',
       ve_validator_value = JArr [JStr ''b''], ve_instance = JObj [],
       ve_message = [CHR 39] @ ''b'' @ [CHR 39] @ '' is a required property''\<rparr>]"

definition dotted_engine :: ValidationEngine where
  "dotted_engine =
     \<lparr>schema = dotted_schema,
      validator = iter_errors (reporting [(dotted_doc, dotted_diagnostics)]) dotted_schema\<rparr>"

text \<open>A runtime for the sign-up schema with nothing stored yet, and two sets of draws.\<close>

definition signup_runtime :: IntakeRuntime where
  "signup_runtime =
     \<lparr>intake_id = ''vendor_onboarding'', rt_schema = signup_schema,
      validation_engine =
        \<lparr>schema = signup_schema, validator = iter_errors signup_lib signup_schema\<rparr>,
      submissions = Map.empty, state_machines = Map.empty, resume_tokens = Map.empty,
      submission_data = Map.empty, idempotency_keys = Map.empty\<rparr>"

definition bot_dict :: actor_arg where
  "bot_dict =
     ActorDict \<lparr>dict_kind = Some ''agent'', dict_id = Some ''bot_1'', dict_name = None,
                dict_metadata = None\<rparr>"

definition draws_a :: draws where
  "draws_a =
     \<lparr>submission_uuid = 0x0123456789abcdef0123456789abcdef,
      token_source = (\<lambda>i. word_of_nat (7 * i + 3)),
      event_uuid = 0x00112233445566778899aabbccddeeff, clock = jan15\<rparr>"

definition draws_b :: draws where
  "draws_b =
     \<lparr>submission_uuid = 0xfedcba9876543210fedcba9876543210,
      token_source = (\<lambda>i. word_of_nat (11 * i + 5)),
      event_uuid = 0xffeeddccbbaa99887766554433221100, clock = jan15\<rparr>"

text \<open>
  The runtime \<open>signup_runtime\<close> after a first \<^verbatim>\<open>create_submission\<close> by \<open>bot_dict\<close> with
  the key \<^verbatim>\<open>k1\<close>, no fields and the draws \<open>draws_a\<close>.
\<close>

definition after_first_call :: IntakeRuntime where
  "after_first_call =
     signup_runtime
       \<lparr>submissions :=
          [''sub_0123456789abcdef'' \<mapsto>
             \<lparr>rec_submission_id = ''sub_0123456789abcdef'',
              rec_intake_id = ''vendor_onboarding'', rec_state = ''draft'',
              rec_resume_token = ''rt_AwoRGB8mLTQ7QklQV15lbHN6gYiPlp2kq7K5wMfO1dw'',
              rec_created_by = JObj [(''kind'', JStr ''agent''), (''id'', JStr ''bot_1'')],
              rec_ttl_ms = None\<rparr>],
        state_machines :=
          [''sub_0123456789abcdef'' \<mapsto> new_state_machine ''sub_0123456789abcdef'' DRAFT],
        resume_tokens :=
          [''rt_AwoRGB8mLTQ7QklQV15lbHN6gYiPlp2kq7K5wMfO1dw'' \<mapsto> ''sub_0123456789abcdef''],
        submission_data := [''sub_0123456789abcdef'' \<mapsto> []],
        idempotency_keys := [''k1'' \<mapsto> ''sub_0123456789abcdef'']\<rparr>"





text \<open>A runtime for the schema whose reference resolves to nothing.\<close>

definition dangling_ref_runtime :: IntakeRuntime where
  "dangling_ref_runtime =
     \<lparr>intake_id = ''vendor_onboarding'', rt_schema = dangling_ref_schema,
      validation_engine =
        \<lparr>schema = dangling_ref_schema,
         validator = iter_errors dangling_ref_lib dangling_ref_schema\<rparr>,
      submissions = Map.empty, state_machines = Map.empty, resume_tokens = Map.empty,
      submission_data = Map.empty, idempotency_keys = Map.empty\<rparr>"

text \<open>
  The event that \<^verbatim>\<open>create_submission\<close> has the state machine mint for \<open>bot_dict\<close>, whose
  actor has no \<^verbatim>\<open>metadata\<close> key: the actor's metadata is \<^verbatim>\<open>None\<close>.
\<close>

definition minted_event :: IntakeEvent where
  "minted_event =
     last (events (snd (transition_to IN_PROGRESS bot_1 (event_uuid draws_a) jan15
                          (new_state_machine ''sub_0123456789abcdef'' DRAFT))))"

section \<open>State machine: rejected transitions\<close>

lemma finite_VALID_TRANSITIONS: "finite (VALID_TRANSITIONS s)"
  by (cases s) simp_all

lemma terminal_has_no_target:
  assumes "is_terminal sm"
  shows "dst \<notin> VALID_TRANSITIONS (state sm)"
  using assms finite_VALID_TRANSITIONS [of "state sm"] by (simp add: is_terminal_def)

text \<open>
  C1. A \<^verbatim>\<open>transition_to\<close> whose target is not in the table row of the current state,
  which includes every target once the machine is terminal, raises
  \<^verbatim>\<open>InvalidStateTransitionError\<close> carrying the current and the target state, and leaves
  the machine as it was: same state, same event log.
\<close>

theorem illegal_transition_rejected:
  assumes "dst \<notin> VALID_TRANSITIONS (state sm) \<or> is_terminal sm"
  shows "fst (transition_to dst act u now sm) =
           Inl (InvalidStateTransitionError (state sm) dst
                  (invalid_transition_message (state sm) dst))
         \<and> state (snd (transition_to dst act u now sm)) = state sm
         \<and> events (snd (transition_to dst act u now sm)) = events sm
         \<and> snd (transition_to dst act u now sm) = sm"
proof -
  have "dst \<notin> VALID_TRANSITIONS (state sm)"
    using assms terminal_has_no_target by blast
  then show ?thesis
    by (simp add: transition_to_def can_transition_to_def)
qed

theorem illegal_transition_rejected_witness:
  "SUBMITTED \<notin> VALID_TRANSITIONS (state draft_machine)
   \<and> fst (transition_to SUBMITTED bot_1 7 jan15 draft_machine) =
       Inl (InvalidStateTransitionError DRAFT SUBMITTED
              (invalid_transition_message DRAFT SUBMITTED))
   \<and> state (snd (transition_to SUBMITTED bot_1 7 jan15 draft_machine)) = DRAFT
   \<and> events (snd (transition_to SUBMITTED bot_1 7 jan15 draft_machine)) = []"
proof -
  have h: "SUBMITTED \<notin> VALID_TRANSITIONS (state draft_machine) \<or> is_terminal draft_machine"
    by (simp add: draft_machine_def new_state_machine_def)
  have h': "SUBMITTED \<notin> VALID_TRANSITIONS (state draft_machine)"
    by (simp add: draft_machine_def new_state_machine_def)
  from illegal_transition_rejected [OF h, of bot_1 7 jan15] h' show ?thesis
    by (simp add: draft_machine_def new_state_machine_def)
qed

section \<open>State machine: the event log\<close>

lemma transition_to_keeps_log_invariant:
  assumes "\<forall>e\<in>set (events sm). ev_submission_id e = submission_id sm"
    and "events sm \<noteq> [] \<longrightarrow> ev_state (last (events sm)) = state sm"
    and "transition_to dst act u now sm = (Inr (), sm')"
  shows "submission_id sm' = submission_id sm
         \<and> (\<forall>e\<in>set (events sm'). ev_submission_id e = submission_id sm')
         \<and> (events sm' \<noteq> [] \<longrightarrow> ev_state (last (events sm')) = state sm')"
  using assms
  by (auto simp add: transition_to_def emit_event_def Let_def split: if_splits)

lemma transition_all_keeps_log_invariant:
  assumes "transition_all cs sm = (Inr (), sm')"
    and "\<forall>e\<in>set (events sm). ev_submission_id e = submission_id sm"
    and "events sm \<noteq> [] \<longrightarrow> ev_state (last (events sm)) = state sm"
  shows "submission_id sm' = submission_id sm
         \<and> (\<forall>e\<in>set (events sm'). ev_submission_id e = submission_id sm')
         \<and> (events sm' \<noteq> [] \<longrightarrow> ev_state (last (events sm')) = state sm')"
  using assms
proof (induction cs arbitrary: sm)
  case Nil
  then show ?case by simp
next
  case (Cons c cs)
  obtain r sm1 where step:
    "transition_to (call_target c) (call_actor c) (call_uuid c) (call_now c) sm = (r, sm1)"
    by (cases "transition_to (call_target c) (call_actor c) (call_uuid c) (call_now c) sm")
  with Cons.prems(1) have r: "r = Inr ()" and rest: "transition_all cs sm1 = (Inr (), sm')"
    by (auto split: sum.splits)
  from transition_to_keeps_log_invariant [OF Cons.prems(2) Cons.prems(3) step [unfolded r]]
  have i1: "submission_id sm1 = submission_id sm"
    and i2: "\<forall>e\<in>set (events sm1). ev_submission_id e = submission_id sm1"
    and i3: "events sm1 \<noteq> [] \<longrightarrow> ev_state (last (events sm1)) = state sm1"
    by auto
  from Cons.IH [OF rest i2 i3] i1 show ?case by simp
qed

text \<open>
  C2. Take a machine as its constructor builds it (any submission id, any starting state)
  and any sequence of \<^verbatim>\<open>transition_to\<close> calls that all succeed. Afterwards every event
  of the log carries the machine's submission id, and if the log is not empty the state
  recorded in its last event is the machine's current state.
\<close>

theorem event_log_invariant:
  assumes "transition_all cs (new_state_machine sid st) = (Inr (), sm)"
  shows "submission_id sm = sid
         \<and> (\<forall>e\<in>set (events sm). ev_submission_id e = submission_id sm)
         \<and> (events sm \<noteq> [] \<longrightarrow> ev_state (last (events sm)) = state sm)"
proof -
  let ?m = "new_state_machine sid st"
  have a: "\<forall>e\<in>set (events ?m). ev_submission_id e = submission_id ?m"
    by (simp add: new_state_machine_def)
  have b: "events ?m \<noteq> [] \<longrightarrow> ev_state (last (events ?m)) = state ?m"
    by (simp add: new_state_machine_def)
  from transition_all_keeps_log_invariant [OF assms a b] show ?thesis
    by (simp add: new_state_machine_def)
qed

lemma two_calls_run:
  "transition_all two_calls (new_state_machine ''sub_123'' DRAFT) =
     (Inr (),
      \<lparr>submission_id = ''sub_123'', state = SUBMITTED,
       events =
         [\<lparr>event_id = ''evt_'' @ take 16 (uuid_hex 1), ev_type = FIELD_UPDATED,
           ev_submission_id = ''sub_123'', ts = jan15, actor = bot_1,
           ev_state = IN_PROGRESS,
           payload = Some [(''from_state'', JStr ''draft''),
                           (''to_state'', JStr ''in_progress'')]\<rparr>,
          \<lparr>event_id = ''evt_'' @ take 16 (uuid_hex 2), ev_type = SUBMISSION_SUBMITTED,
           ev_submission_id = ''sub_123'', ts = jan15, actor = bot_1,
           ev_state = SUBMITTED,
           payload = Some [(''from_state'', JStr ''in_progress''),
                           (''to_state'', JStr ''submitted'')]\<rparr>]\<rparr>)"
  by (simp add: two_calls_def new_state_machine_def transition_to_def can_transition_to_def
      emit_event_def Let_def)

theorem event_log_invariant_witness:
  "fst (transition_all two_calls (new_state_machine ''sub_123'' DRAFT)) = Inr ()
   \<and> length (events (snd (transition_all two_calls (new_state_machine ''sub_123'' DRAFT)))) = 2
   \<and> map ev_submission_id
         (events (snd (transition_all two_calls (new_state_machine ''sub_123'' DRAFT))))
       = [''sub_123'', ''sub_123'']
   \<and> ev_state (last (events (snd (transition_all two_calls
                                      (new_state_machine ''sub_123'' DRAFT)))))
       = state (snd (transition_all two_calls (new_state_machine ''sub_123'' DRAFT)))"
proof -
  let ?sm = "snd (transition_all two_calls (new_state_machine ''sub_123'' DRAFT))"
  have run: "transition_all two_calls (new_state_machine ''sub_123'' DRAFT) = (Inr (), ?sm)"
    by (simp add: two_calls_run)
  have len: "length (events ?sm) = 2"
    by (simp add: two_calls_run)
  have ok: "fst (transition_all two_calls (new_state_machine ''sub_123'' DRAFT)) = Inr ()"
    by (simp add: two_calls_run)
  have ids: "map ev_submission_id (events ?sm) = [''sub_123'', ''sub_123'']"
    by (simp add: two_calls_run)
  from len have "events ?sm \<noteq> []"
    by auto
  with event_log_invariant [OF run] len ok ids show ?thesis
    by simp
qed

section \<open>State machine: the minted event\<close>

lemma transition_to_legal:
  assumes "can_transition_to sm dst"
  shows "transition_to dst act u now sm =
           (Inr (), emit_event dst act (state sm) u now (sm\<lparr>state := dst\<rparr>))"
  using assms by (simp add: transition_to_def Let_def)

lemma legal_target_event_type:
  assumes "dst \<in> VALID_TRANSITIONS src"
  shows "Some (case STATE_TO_EVENT_TYPE dst of Some t \<Rightarrow> t | None \<Rightarrow> FIELD_UPDATED)
           = spec_event_type dst"
  using assms by (cases src; cases dst; simp)

text \<open>
  C5. A legal \<^verbatim>\<open>transition_to\<close> returns normally, moves the machine to the target and
  appends exactly one event. The type of that event is the one the specification's table
  gives for the target state, its payload is
  \<^verbatim>\<open>{"from_state": old, "to_state": new}\<close>, and its id starts with \<^verbatim>\<open>evt_\<close>.
\<close>

theorem minted_event_type_and_payload:
  assumes "can_transition_to sm dst"
  shows "(case transition_to dst act u now sm of (r, sm') \<Rightarrow>
           let e = last (events sm') in
             r = Inr () \<and> state sm' = dst \<and> events sm' = events sm @ [e]
             \<and> Some (ev_type e) = spec_event_type dst
             \<and> ev_state e = dst
             \<and> payload e = Some [(''from_state'', JStr (state_value (state sm))),
                                 (''to_state'', JStr (state_value dst))]
             \<and> take 4 (event_id e) = ''evt_'')"
proof -
  have "dst \<in> VALID_TRANSITIONS (state sm)"
    using assms by (simp add: can_transition_to_def)
  from legal_target_event_type [OF this] show ?thesis
    by (simp add: transition_to_legal [OF assms] emit_event_def Let_def)
qed

theorem minted_event_type_and_payload_witness:
  "can_transition_to draft_machine IN_PROGRESS
   \<and> (case transition_to IN_PROGRESS bot_1 7 jan15 draft_machine of (r, sm') \<Rightarrow>
         r = Inr () \<and> state sm' = IN_PROGRESS
         \<and> length (events sm') = 1
         \<and> ev_type (last (events sm')) = FIELD_UPDATED
         \<and> payload (last (events sm')) = Some [(''from_state'', JStr ''draft''),
                                               (''to_state'', JStr ''in_progress'')]
         \<and> take 4 (event_id (last (events sm'))) = ''evt_'')"
proof -
  have h: "can_transition_to draft_machine IN_PROGRESS"
    by (simp add: can_transition_to_def draft_machine_def new_state_machine_def)
  obtain r sm' where run: "transition_to IN_PROGRESS bot_1 7 jan15 draft_machine = (r, sm')"
    by (cases "transition_to IN_PROGRESS bot_1 7 jan15 draft_machine")
  from minted_event_type_and_payload [OF h, of bot_1 7 jan15]
  have facts: "r = Inr () \<and> state sm' = IN_PROGRESS
      \<and> events sm' = events draft_machine @ [last (events sm')]
      \<and> Some (ev_type (last (events sm'))) = spec_event_type IN_PROGRESS
      \<and> payload (last (events sm')) =
          Some [(''from_state'', JStr (state_value (state draft_machine))),
                (''to_state'', JStr (state_value IN_PROGRESS))]
      \<and> take 4 (event_id (last (events sm'))) = ''evt_''"
    by (simp add: run Let_def)
  then have "length (events sm') = length (events draft_machine @ [last (events sm')])"
    by simp
  then have len: "length (events sm') = 1"
    by (simp add: draft_machine_def new_state_machine_def)
  have st: "state draft_machine = DRAFT"
    by (simp add: draft_machine_def new_state_machine_def)
  from facts len h show ?thesis
    by (simp add: run st)
qed

section \<open>Event emitter: dispatch order and listener isolation\<close>

lemma after_calls_snoc: "after_calls (cs @ [c]) = perform c (after_calls cs)"
  by (simp add: after_calls_def)

lemma specific_of_snoc: "specific_of t (cs @ [c]) = registered_step t (specific_of t cs) c"
  by (simp add: specific_of_def)

lemma wildcard_of_snoc: "wildcard_of (cs @ [c]) = wildcard_step (wildcard_of cs) c"
  by (simp add: wildcard_of_def)

lemma registry_of_perform:
  assumes "registry_of cs em"
  shows "registry_of (cs @ [c]) (perform c em)"
proof (cases c)
  case (On t l)
  show ?thesis
  proof (cases "listeners em t")
    case None
    with assms show ?thesis
      unfolding registry_of_def On
      by (auto simp add: specific_of_snoc wildcard_of_snoc on_def Let_def intro: less_SucI)
  next
    case (Some a)
    with assms show ?thesis
      unfolding registry_of_def On
      by (auto simp add: specific_of_snoc wildcard_of_snoc on_def Let_def)
  qed
next
  case (OnAny l)
  with assms show ?thesis
    unfolding registry_of_def
    by (auto simp add: specific_of_snoc wildcard_of_snoc on_any_def)
next
  case (Off t l)
  show ?thesis
  proof (cases "listeners em t")
    case None
    with assms show ?thesis
      unfolding registry_of_def Off
      by (auto simp add: specific_of_snoc wildcard_of_snoc off_def)
  next
    case (Some a)
    with assms show ?thesis
      unfolding registry_of_def Off
      by (auto simp add: specific_of_snoc wildcard_of_snoc off_def)
  qed
next
  case (OffAny l)
  with assms show ?thesis
    unfolding registry_of_def
    by (auto simp add: specific_of_snoc wildcard_of_snoc off_any_def)
next
  case Clear
  with assms show ?thesis
    unfolding registry_of_def
    by (auto simp add: specific_of_snoc wildcard_of_snoc clear_def)
qed

lemma registry_of_after_calls: "registry_of cs (after_calls cs)"
proof (induction cs rule: rev_induct)
  case Nil
  then show ?case
    by (simp add: registry_of_def after_calls_def new_emitter_def specific_of_def
        wildcard_of_def)
next
  case (snoc c cs)
  then show ?case
    by (simp add: after_calls_snoc registry_of_perform)
qed


lemma call_listeners_end:
  "\<not> i < length (lists (fst s) a) \<Longrightarrow> call_listeners call a i event s = Some (None, s)"
  by (subst call_listeners.simps) simp

lemma call_listeners_step:
  "i < length (lists (fst s) a) \<Longrightarrow>
     call_listeners call a i event s =
       (let out = call (lists (fst s) a ! i) event s
        in if escapes (fst out) then Some out
           else call_listeners call a (i + 1) event (snd out))"
  by (subst call_listeners.simps) simp

lemma call_listeners_fixed:
  assumes "\<forall>l\<in>set (lists em a). \<forall>w. fst (snd (call l ev (em, w))) = em"
  shows "call_listeners call a i ev (em, w) = Some (until_escape call (drop i (lists em a)) ev (em, w))"
proof (induction "length (lists em a) - i" arbitrary: i w)
  case 0
  then show ?case
    by (simp add: call_listeners_end)
next
  case (Suc n)
  then have i: "i < length (lists em a)"
    by simp
  let ?l = "lists em a ! i"
  obtain r em' w' where out: "call ?l ev (em, w) = (r, em', w')"
    by (cases "call ?l ev (em, w)") auto
  from assms i have "fst (snd (call ?l ev (em, w))) = em"
    by simp
  with out have em': "em' = em"
    by simp
  from Suc(2) have n: "n = length (lists em a) - (i + 1)"
    by simp
  have d: "drop i (lists em a) = ?l # drop (i + 1) (lists em a)"
    using i by (simp add: Cons_nth_drop_Suc)
  show ?case
    using Suc(1) [OF n, of w'] out i
    by (simp add: call_listeners_step d Let_def em')
qed

lemma until_escape_fixed:
  assumes "\<forall>l\<in>set ls. \<forall>w. fst (snd (call l ev (em, w))) = em"
  shows "fst (snd (until_escape call ls ev (em, w))) = em"
  using assms
proof (induction ls arbitrary: w)
  case Nil
  then show ?case by simp
next
  case (Cons l ls)
  obtain r em' w' where out: "call l ev (em, w) = (r, em', w')"
    by (cases "call l ev (em, w)") auto
  from Cons.prems have "fst (snd (call l ev (em, w))) = em"
    by simp
  with out have em': "em' = em"
    by simp
  from Cons.prems have "\<forall>l\<in>set ls. \<forall>w. fst (snd (call l ev (em, w))) = em"
    by simp
  from Cons.IH [OF this, of w'] out em' show ?case
    by (simp add: Let_def)
qed

lemma escapes_raised: "escapes r \<Longrightarrow> r \<noteq> None"
  by (cases r rule: escapes.cases) simp_all

lemma until_escape_result: "fst (until_escape call ls ev s) \<noteq> None \<longleftrightarrow> escapes (fst (until_escape call ls ev s))"
proof (induction ls arbitrary: s)
  case Nil
  then show ?case by simp
next
  case (Cons l ls)
  then show ?case
    by (cases "escapes (fst (call l ev s))") (simp_all add: Let_def escapes_raised)
qed

lemma until_escape_append:
  "until_escape call (xs @ ys) ev s =
     (if escapes (fst (until_escape call xs ev s)) then until_escape call xs ev s
      else until_escape call ys ev (snd (until_escape call xs ev s)))"
proof (induction xs arbitrary: s)
  case Nil
  then show ?case by simp
next
  case (Cons l ls)
  then show ?case
    by (simp add: Let_def)
qed

lemma emit_fixed:
  assumes "\<forall>l\<in>set (specific_of (ev_type ev) cs @ wildcard_of cs).
             \<forall>w. fst (snd (call l ev (after_calls cs, w))) = after_calls cs"
  shows "emit call (after_calls cs) ev w =
           Some (until_escape call (specific_of (ev_type ev) cs @ wildcard_of cs) ev
                   (after_calls cs, w))"
proof -
  let ?em = "after_calls cs"
  from registry_of_after_calls [of cs]
  have any: "any_listeners ?em = 0" and wild: "lists ?em 0 = wildcard_of cs"
    and none: "listeners ?em (ev_type ev) = None \<Longrightarrow> specific_of (ev_type ev) cs = []"
    and some: "\<And>a. listeners ?em (ev_type ev) = Some a \<Longrightarrow> lists ?em a = specific_of (ev_type ev) cs"
    unfolding registry_of_def by blast+
  from assms wild have w: "\<forall>l\<in>set (lists ?em 0). \<forall>w. fst (snd (call l ev (?em, w))) = ?em"
    by simp
  have second: "call_listeners call 0 0 ev (?em, w') =
      Some (until_escape call (wildcard_of cs) ev (?em, w'))" for w'
    using call_listeners_fixed [of ?em 0 call ev 0 w', OF w] by (simp add: wild)
  show ?thesis
  proof (cases "listeners ?em (ev_type ev)")
    case None
    with none have "specific_of (ev_type ev) cs = []"
      by simp
    with None show ?thesis
      by (simp add: emit_def any second)
  next
    case (Some a)
    from assms some [OF Some]
    have s: "\<forall>l\<in>set (lists ?em a). \<forall>w. fst (snd (call l ev (?em, w))) = ?em"
      by simp
    from assms have s': "\<forall>l\<in>set (specific_of (ev_type ev) cs). \<forall>w. fst (snd (call l ev (?em, w))) = ?em"
      by simp
    let ?out = "until_escape call (specific_of (ev_type ev) cs) ev (?em, w)"
    have first: "call_listeners call a 0 ev (?em, w) = Some ?out"
      using call_listeners_fixed [of ?em a call ev 0 w, OF s] by (simp add: some [OF Some])
    obtain r w1 where out: "?out = (r, ?em, w1)"
      using until_escape_fixed [of "specific_of (ev_type ev) cs" call ev ?em w, OF s']
      by (cases ?out) auto
    show ?thesis
    proof (cases "escapes r")
      case True
      then have "r \<noteq> None"
        by (rule escapes_raised)
      with True out show ?thesis
        by (simp add: emit_def Some first until_escape_append)
    next
      case False
      with until_escape_result [of call "specific_of (ev_type ev) cs" ev "(?em, w)"] out
      have "r = None"
        by simp
      with out show ?thesis
        by (simp add: emit_def Some first until_escape_append any second)
    qed
  qed
qed

lemma escapes_iff: "escapes r \<longleftrightarrow> (\<exists>x. r = Some (BaseExceptionOnly x))"
  by (cases r rule: escapes.cases) simp_all

lemma until_escape_all:
  assumes "\<forall>l\<in>set ls. \<forall>w. fst (snd (call l ev (em, w))) = em"
    and "\<forall>l\<in>set ls. \<forall>w x. fst (call l ev (em, w)) \<noteq> Some (BaseExceptionOnly x)"
  shows "until_escape call ls ev (em, w) = (None, em, run_in_order call ls ev em w)"
  using assms
proof (induction ls arbitrary: w)
  case Nil
  then show ?case by (simp add: run_in_order_def)
next
  case (Cons l ls)
  obtain r em' w' where out: "call l ev (em, w) = (r, em', w')"
    by (cases "call l ev (em, w)") auto
  from Cons.prems(1) have "fst (snd (call l ev (em, w))) = em"
    by simp
  with out have em': "em' = em"
    by simp
  from Cons.prems(2) have "\<And>x. fst (call l ev (em, w)) \<noteq> Some (BaseExceptionOnly x)"
    by simp
  with out have r: "\<not> escapes r"
    by (simp add: escapes_iff)
  from Cons.prems have "\<forall>l\<in>set ls. \<forall>w. fst (snd (call l ev (em, w))) = em"
    and "\<forall>l\<in>set ls. \<forall>w x. fst (call l ev (em, w)) \<noteq> Some (BaseExceptionOnly x)"
    by simp_all
  from Cons.IH [OF this, of w'] out em' r show ?case
    by (simp add: Let_def run_in_order_def)
qed

text \<open>
  C6, as amended. Take an emitter after any history of \<^verbatim>\<open>on\<close>, \<^verbatim>\<open>on_any\<close>, \<^verbatim>\<open>off\<close>,
  \<^verbatim>\<open>off_any\<close> and \<^verbatim>\<open>clear\<close> calls, an event, and listeners that leave the emitter as
  it is while it dispatches. If none of the listeners concerned raises anything but
  instances of \<^verbatim>\<open>Exception\<close>, then \<^verbatim>\<open>emit\<close> returns normally, and what it leaves
  behind is the result of running, each exactly once and whether or not the ones before it
  raised, the listeners registered for the event's type in registration order and then the
  wildcard listeners in registration order. And if in that order the listener \<open>l\<close> is
  the first to raise an exception \<open>x\<close> that is not an instance of \<^verbatim>\<open>Exception\<close>, then
  the listeners before \<open>l\<close> and \<open>l\<close> have run, each once and in that order, none of
  those after \<open>l\<close> has, and \<^verbatim>\<open>emit\<close> raises \<open>x\<close> to its caller.
\<close>

theorem emit_runs_all_in_order:
  assumes "\<forall>l\<in>set (specific_of (ev_type ev) cs @ wildcard_of cs).
             \<forall>w. fst (snd (call l ev (after_calls cs, w))) = after_calls cs"
  shows "((\<forall>l\<in>set (specific_of (ev_type ev) cs @ wildcard_of cs).
             \<forall>w x. fst (call l ev (after_calls cs, w)) \<noteq> Some (BaseExceptionOnly x))
          \<longrightarrow> emit call (after_calls cs) ev w =
                Some (None, after_calls cs,
                      run_in_order call (specific_of (ev_type ev) cs @ wildcard_of cs) ev
                        (after_calls cs) w))
         \<and> (specific_of (ev_type ev) cs @ wildcard_of cs = before @ l # rest
              \<and> (\<forall>l'\<in>set before.
                    \<forall>w x. fst (call l' ev (after_calls cs, w)) \<noteq> Some (BaseExceptionOnly x))
              \<and> fst (call l ev (after_calls cs, run_in_order call before ev (after_calls cs) w))
                  = Some (BaseExceptionOnly x)
            \<longrightarrow> emit call (after_calls cs) ev w =
                  Some (Some (BaseExceptionOnly x), after_calls cs,
                        snd (snd (call l ev (after_calls cs,
                                    run_in_order call before ev (after_calls cs) w)))))"
proof -
  let ?em = "after_calls cs"
  let ?ls = "specific_of (ev_type ev) cs @ wildcard_of cs"
  note run = emit_fixed [where ev = ev and cs = cs and call = call and w = w, OF assms]
  have all: "emit call ?em ev w = Some (None, ?em, run_in_order call ?ls ev ?em w)"
    if "\<forall>l\<in>set ?ls. \<forall>w x. fst (call l ev (?em, w)) \<noteq> Some (BaseExceptionOnly x)"
    using run until_escape_all [of ?ls call ev ?em w, OF assms that] by simp
  have stop: "emit call ?em ev w =
      Some (Some (BaseExceptionOnly x), ?em,
            snd (snd (call l ev (?em, run_in_order call before ev ?em w))))"
    if split: "?ls = before @ l # rest"
      and quiet: "\<forall>l'\<in>set before. \<forall>w x. fst (call l' ev (?em, w)) \<noteq> Some (BaseExceptionOnly x)"
      and raises: "fst (call l ev (?em, run_in_order call before ev ?em w))
                     = Some (BaseExceptionOnly x)"
  proof -
    from assms split have fb: "\<forall>l\<in>set before. \<forall>w. fst (snd (call l ev (?em, w))) = ?em"
      and fl: "\<forall>w. fst (snd (call l ev (?em, w))) = ?em"
      by simp_all
    let ?w = "run_in_order call before ev ?em w"
    have b: "until_escape call before ev (?em, w) = (None, ?em, ?w)"
      using until_escape_all [of before call ev ?em w, OF fb quiet] .
    obtain r em' w' where out: "call l ev (?em, ?w) = (r, em', w')"
      by (cases "call l ev (?em, ?w)") auto
    with fl raises have "em' = ?em" and "r = Some (BaseExceptionOnly x)"
      by (metis fst_conv snd_conv)+
    with out b have "until_escape call (before @ l # rest) ev (?em, w)
        = (Some (BaseExceptionOnly x), ?em, w')"
      by (simp add: until_escape_append Let_def)
    with run split out show ?thesis
      by simp
  qed
  from all stop show ?thesis
    by blast
qed

theorem emit_runs_all_in_order_witness:
  "specific_of FIELD_UPDATED mixed_calls @ wildcard_of mixed_calls = [1, 2, 3, 4]
   \<and> map_option fst (emit (noting mixed_outcome) (after_calls mixed_calls)
                        field_updated_event []) = Some None
   \<and> map_option (\<lambda>out. snd (snd out))
        (emit (noting mixed_outcome) (after_calls mixed_calls) field_updated_event [])
       = Some [1, 2, 3, 4]
   \<and> map_option fst (emit (noting interrupting_outcome) (after_calls interrupting_calls)
                        field_updated_event [])
       = Some (Some (BaseExceptionOnly ''KeyboardInterrupt''))
   \<and> map_option (\<lambda>out. snd (snd out))
        (emit (noting interrupting_outcome) (after_calls interrupting_calls)
           field_updated_event [])
       = Some [1, 2]"
proof -
  have t: "ev_type field_updated_event = FIELD_UPDATED"
    by (simp add: field_updated_event_def)
  have m: "specific_of FIELD_UPDATED mixed_calls @ wildcard_of mixed_calls = [1, 2, 3, 4]"
    by (simp add: mixed_calls_def specific_of_def wildcard_of_def)
  have i: "specific_of FIELD_UPDATED interrupting_calls @ wildcard_of interrupting_calls
      = [1] @ 2 # [3]"
    by (simp add: interrupting_calls_def specific_of_def wildcard_of_def)
  have fixed: "\<forall>l\<in>set (specific_of (ev_type field_updated_event) cs @ wildcard_of cs).
      \<forall>w. fst (snd (noting how l field_updated_event (after_calls cs, w))) = after_calls cs"
    for cs how
    by (simp add: noting_def)
  have quiet: "\<forall>l\<in>set (specific_of (ev_type field_updated_event) mixed_calls
                         @ wildcard_of mixed_calls).
      \<forall>w x. fst (noting mixed_outcome l field_updated_event (after_calls mixed_calls, w))
              \<noteq> Some (BaseExceptionOnly x)"
    by (simp add: t m noting_def mixed_outcome_def)
  have quiet1: "\<forall>l'\<in>set [1].
      \<forall>w x. fst (noting interrupting_outcome l' field_updated_event
                    (after_calls interrupting_calls, w)) \<noteq> Some (BaseExceptionOnly x)"
    by (simp add: noting_def interrupting_outcome_def)
  have raises: "fst (noting interrupting_outcome 2 field_updated_event
      (after_calls interrupting_calls,
       run_in_order (noting interrupting_outcome) [1] field_updated_event
         (after_calls interrupting_calls) []))
      = Some (BaseExceptionOnly ''KeyboardInterrupt'')"
    by (simp add: noting_def interrupting_outcome_def)
  from emit_runs_all_in_order [of field_updated_event mixed_calls "noting mixed_outcome"
      "[]", OF fixed [of mixed_calls mixed_outcome]] quiet
  have a: "emit (noting mixed_outcome) (after_calls mixed_calls) field_updated_event []
      = Some (None, after_calls mixed_calls,
              run_in_order (noting mixed_outcome) [1, 2, 3, 4] field_updated_event
                (after_calls mixed_calls) [])"
    by (simp add: t m)
  from emit_runs_all_in_order [of field_updated_event interrupting_calls
      "noting interrupting_outcome" "[]" "[1]" 2 "[3]" "''KeyboardInterrupt''",
      OF fixed [of interrupting_calls interrupting_outcome]]
    i quiet1 raises
  have b: "emit (noting interrupting_outcome) (after_calls interrupting_calls)
      field_updated_event []
      = Some (Some (BaseExceptionOnly ''KeyboardInterrupt''), after_calls interrupting_calls,
              snd (snd (noting interrupting_outcome 2 field_updated_event
                (after_calls interrupting_calls,
                 run_in_order (noting interrupting_outcome) [1] field_updated_event
                   (after_calls interrupting_calls) []))))"
    by (simp add: t)
  from m show ?thesis
    by (simp add: a b run_in_order_def noting_def)
qed

text \<open>
  The claim as the specification words it fails in two ways. The second of three wildcard
  listeners raises \<^verbatim>\<open>KeyboardInterrupt\<close>, which \<^verbatim>\<open>except Exception\<close> does not catch:
  \<^verbatim>\<open>emit\<close> raises it to its caller and the third listener never runs. And when each of
  the three wildcard listeners takes itself off the list it is called from, \<^verbatim>\<open>emit\<close>
  iterates over the list that shrinks under it: it returns normally having called the
  first and the third listener, and the second, which was registered, is never called.
\<close>

theorem emit_swallows_every_exception_counterexample:
  "map_option fst (emit (noting interrupting_outcome) (after_calls interrupting_calls)
                     field_updated_event [])
     = Some (Some (BaseExceptionOnly ''KeyboardInterrupt''))
   \<and> map_option (\<lambda>out. snd (snd out))
        (emit (noting interrupting_outcome) (after_calls interrupting_calls)
           field_updated_event [])
       = Some [1, 2]
   \<and> wildcard_of interrupting_calls = [1, 2, 3]
   \<and> lists (after_calls interrupting_calls) (any_listeners (after_calls interrupting_calls))
       = [1, 2, 3]
   \<and> map_option fst (emit leaving (after_calls interrupting_calls) field_updated_event [])
       = Some None
   \<and> map_option (\<lambda>out. snd (snd out))
        (emit leaving (after_calls interrupting_calls) field_updated_event [])
       = Some [1, 3]"
  apply (simp add: emit_def after_calls_def new_emitter_def on_any_def interrupting_calls_def
      wildcard_of_def)
  apply (simp add: call_listeners_end call_listeners_step leaving_def off_any_def Let_def
      noting_def interrupting_outcome_def)
  done

section \<open>Validation engine: completeness and partition of the errors\<close>

lemma translate_all_accumulates:
  assumes "translate_all errs fe mf iv = Inr (fe', mf', iv')"
  shows "\<exists>new. fe' = fe @ new \<and> map translate_error errs = map Inr new
           \<and> mf' = mf @ map path (filter (\<lambda>f. code f = REQUIRED) new)
           \<and> iv' = iv @ map path (filter (\<lambda>f. code f \<noteq> REQUIRED) new)"
  using assms
proof (induction errs arbitrary: fe mf iv)
  case Nil
  then show ?case by simp
next
  case (Cons e errs)
  then obtain f where f: "translate_error e = Inr f"
    by (cases "translate_error e") auto
  show ?case
  proof (cases "code f = REQUIRED")
    case True
    with Cons.prems f
    have "translate_all errs (fe @ [f]) (mf @ [path f]) iv = Inr (fe', mf', iv')"
      by simp
    from Cons.IH [OF this] obtain new where
      "fe' = (fe @ [f]) @ new" "map translate_error errs = map Inr new"
      "mf' = (mf @ [path f]) @ map path (filter (\<lambda>f. code f = REQUIRED) new)"
      "iv' = iv @ map path (filter (\<lambda>f. code f \<noteq> REQUIRED) new)"
      by blast
    with f True show ?thesis
      by (intro exI [of _ "f # new"]) simp
  next
    case False
    with Cons.prems f
    have "translate_all errs (fe @ [f]) mf (iv @ [path f]) = Inr (fe', mf', iv')"
      by simp
    from Cons.IH [OF this] obtain new where
      "fe' = (fe @ [f]) @ new" "map translate_error errs = map Inr new"
      "mf' = mf @ map path (filter (\<lambda>f. code f = REQUIRED) new)"
      "iv' = (iv @ [path f]) @ map path (filter (\<lambda>f. code f \<noteq> REQUIRED) new)"
      by blast
    with f False show ?thesis
      by (intro exI [of _ "f # new"]) simp
  qed
qed

text \<open>
  C3, as amended. When the validator reports the diagnostics \<open>diags\<close> for a document and
  \<^verbatim>\<open>validate\<close> returns \<open>r\<close>: the errors of \<open>r\<close> are the translations of all the
  diagnostics, one for one and in order; \<^verbatim>\<open>missing_fields\<close> lists the paths of the errors
  with code \<^verbatim>\<open>required\<close> and \<^verbatim>\<open>invalid_fields\<close> the paths of all the others, so that
  each error adds its path to exactly one of the two lists and the lengths add up; and a
  valid result has no errors, two empty lists and the input as its data. That the two lists
  share no path is not part of it.
\<close>

theorem validate_reports_all_and_partitions:
  assumes "validator engine doc = Inr diags"
    and "validate engine doc = Inr r"
  shows "map Inr (errors r) = map translate_error diags
         \<and> missing_fields r = Some (map path (filter (\<lambda>f. code f = REQUIRED) (errors r)))
         \<and> invalid_fields r = Some (map path (filter (\<lambda>f. code f \<noteq> REQUIRED) (errors r)))
         \<and> length (errors r)
             = length (the (missing_fields r)) + length (the (invalid_fields r))
         \<and> (is_valid r \<longleftrightarrow> diags = [])
         \<and> (is_valid r \<longrightarrow> errors r = [] \<and> missing_fields r = Some []
                \<and> invalid_fields r = Some [] \<and> data r = Some doc)"
proof (cases "diags = []")
  case True
  with assms show ?thesis
    by (auto simp add: validate_def)
next
  case False
  with assms obtain fe mf iv where t: "translate_all diags [] [] [] = Inr (fe, mf, iv)"
    and r: "r = \<lparr>is_valid = False, errors = fe, data = Some doc,
                 missing_fields = Some mf, invalid_fields = Some iv\<rparr>"
    by (auto simp add: validate_def split: sum.splits)
  from translate_all_accumulates [OF t]
  have "map translate_error diags = map Inr fe"
    and "mf = map path (filter (\<lambda>f. code f = REQUIRED) fe)"
    and "iv = map path (filter (\<lambda>f. code f \<noteq> REQUIRED) fe)"
    by auto
  with r False show ?thesis
    by (simp add: sum_length_filter_compl)
qed

lemma signup_diagnostics:
  "iter_errors signup_lib signup_schema email_5 = Inr email_5_diagnostics"
  by (simp add: signup_lib_def reporting_def email_5_def email_nope_def)

lemma signup_translated:
  "translate_all email_5_diagnostics [] [] [] =
     Inr ([\<lparr>path = ''name'', code = REQUIRED,
            message = ''Field '' @ [CHR 39] @ ''name'' @ [CHR 39]
                      @ '' is required but was not provided'',
            expected = JStr ''required field'', received = JNull\<rparr>,
           \<lparr>path = ''email'', code = INVALID_TYPE,
            message = ''Field '' @ [CHR 39] @ ''email'' @ [CHR 39]
                      @ '' has invalid type. Expected string, got int'',
            expected = JStr ''string'', received = JStr ''int''\<rparr>],
          [''name''], [''email''])"
  by (simp add: email_5_diagnostics_def translate_error_def split_apostrophe_1_def
      py_str_def Let_def)

theorem validate_reports_all_and_partitions_witness:
  "\<not> isl (validate \<lparr>schema = signup_schema, validator = iter_errors signup_lib signup_schema\<rparr>
          email_5)
   \<and> map code (errors (projr (validate
         \<lparr>schema = signup_schema, validator = iter_errors signup_lib signup_schema\<rparr>
         email_5))) = [REQUIRED, INVALID_TYPE]
   \<and> missing_fields (projr (validate
         \<lparr>schema = signup_schema, validator = iter_errors signup_lib signup_schema\<rparr>
         email_5)) = Some [''name'']
   \<and> invalid_fields (projr (validate
         \<lparr>schema = signup_schema, validator = iter_errors signup_lib signup_schema\<rparr>
         email_5)) = Some [''email'']
   \<and> length (errors (projr (validate
         \<lparr>schema = signup_schema, validator = iter_errors signup_lib signup_schema\<rparr>
         email_5))) = 1 + 1"
proof -
  let ?e = "\<lparr>schema = signup_schema, validator = iter_errors signup_lib signup_schema\<rparr>"
  let ?r = "projr (validate ?e email_5)"
  have d: "validator ?e email_5 = Inr email_5_diagnostics"
    by (simp add: signup_diagnostics)
  have ne: "email_5_diagnostics \<noteq> []"
    by (simp add: email_5_diagnostics_def)
  have run: "validate ?e email_5 =
      Inr \<lparr>is_valid = False, errors = fst (projr (translate_all email_5_diagnostics [] [] [])),
           data = Some email_5, missing_fields = Some [''name''],
           invalid_fields = Some [''email'']\<rparr>"
    using ne by (simp add: validate_def signup_diagnostics signup_translated)
  then have v: "validate ?e email_5 = Inr ?r"
    by simp
  have codes: "map code (errors ?r) = [REQUIRED, INVALID_TYPE]"
    by (simp add: run signup_translated)
  from validate_reports_all_and_partitions [OF d v] codes v run show ?thesis
    by simp
qed

text \<open>
  The claim as the specification words it fails on the disjointness of the two lists: for
  the schema and document \<^verbatim>\<open>dotted_schema\<close>, \<^verbatim>\<open>dotted_doc\<close> the wrong type of the
  property named \<^verbatim>\<open>a.b\<close> and the missing property \<^verbatim>\<open>b\<close> of the object \<^verbatim>\<open>a\<close> both
  translate to the path \<^verbatim>\<open>a.b\<close>, which lands in both lists.
\<close>

theorem missing_invalid_disjoint_counterexample:
  "\<not> isl (validate dotted_engine dotted_doc)
   \<and> missing_fields (projr (validate dotted_engine dotted_doc)) = Some [''a.b'']
   \<and> invalid_fields (projr (validate dotted_engine dotted_doc)) = Some [''a.b'']
   \<and> set (the (missing_fields (projr (validate dotted_engine dotted_doc))))
       \<inter> set (the (invalid_fields (projr (validate dotted_engine dotted_doc)))) \<noteq> {}"
  by (simp add: validate_def dotted_engine_def reporting_def dotted_diagnostics_def
      translate_error_def split_apostrophe_1_def py_str_def Let_def)

section \<open>Validation engine: type mismatches\<close>

text \<open>
  C7. Every \<^verbatim>\<open>type\<close> diagnostic is translated to an error with code
  \<^verbatim>\<open>invalid_type\<close> whose \<^verbatim>\<open>expected\<close> is the schema's declared type. Its
  \<^verbatim>\<open>received\<close> is \<^verbatim>\<open>type(instance).__name__\<close>, a Python class name: for the document
  \<^verbatim>\<open>{"name": 123}\<close> against \<^verbatim>\<open>{"name": {"type": "string"}}\<close> the code answers
  \<^verbatim>\<open>int\<close>, where the claim and the repository's own test
  \<^verbatim>\<open>test_string_expected_number_received\<close> say \<^verbatim>\<open>number\<close>.
\<close>

theorem type_mismatch_received_is_python_name:
  "\<not> isl (translate_error name_123_diagnostic)
   \<and> code (projr (translate_error name_123_diagnostic)) = INVALID_TYPE
   \<and> expected (projr (translate_error name_123_diagnostic)) = JStr ''string''
   \<and> received (projr (translate_error name_123_diagnostic)) = JStr ''int''
   \<and> received (projr (translate_error name_123_diagnostic)) \<noteq> JStr ''number''"
  by (simp add: name_123_diagnostic_def translate_error_def Let_def)

lemma type_diagnostic_translation:
  assumes "ve_validator d = ''type''"
  shows "\<not> isl (translate_error d)
         \<and> code (projr (translate_error d)) = INVALID_TYPE
         \<and> expected (projr (translate_error d)) = ve_validator_value d
         \<and> received (projr (translate_error d)) = JStr (type_name (ve_instance d))"
  using assms by (simp add: translate_error_def Let_def)

lemma type_name_never_json_name:
  "type_name v \<notin> {''string'', ''number'', ''integer'', ''boolean'', ''array'', ''object'',
                  ''null''}"
  by (cases v) simp_all

section \<open>Validation engine: the returned result\<close>








section \<open>Hexadecimal and base64 renderings\<close>

lemma uuid_hex_length: "length (uuid_hex u) = 32"
  by (simp add: uuid_hex_def)

lemma hexdigit_is_hex: "hexdigit n \<in> set hex_digits"
  unfolding hexdigit_def by (rule nth_mem) (simp add: hex_digits_def)

lemma uuid_hex_chars: "set (uuid_hex u) \<subseteq> set hex_digits"
  unfolding uuid_hex_def using hexdigit_is_hex by auto

lemma uuid_prefix_format:
  "length (take 16 (uuid_hex u)) = 16
   \<and> set (take 16 (uuid_hex u)) \<subseteq> set hex_digits"
proof -
  have "set (take 16 (uuid_hex u)) \<subseteq> set (uuid_hex u)"
    by (rule set_take_subset)
  with uuid_hex_chars [of u] show ?thesis
    by (simp add: uuid_hex_length)
qed

lemma b64char_in_alphabet:
  "b64char n \<in> set urlsafe_alphabet"
  unfolding b64char_def by (rule nth_mem) (simp add: urlsafe_alphabet_def)

lemma pad_not_in_alphabet: "CHR ''='' \<notin> set urlsafe_alphabet"
  by (simp add: urlsafe_alphabet_def)

lemma dropWhile_absent: "c \<notin> set xs \<Longrightarrow> dropWhile (\<lambda>x. x = c) xs = xs"
  by (cases xs) auto

lemma rstrip_padding: "c \<notin> set p \<Longrightarrow> rstrip c (p @ replicate k c) = p"
proof (induction k)
  case 0
  then show ?case by (simp add: rstrip_def dropWhile_absent)
next
  case (Suc k)
  then show ?case by (simp add: rstrip_def replicate_append_same)
qed

lemma urlsafe_b64encode_shape:
  "\<exists>p k. urlsafe_b64encode bs = p @ replicate k CHR ''=''
         \<and> length p = (4 * length bs + 2) div 3
         \<and> set p \<subseteq> set urlsafe_alphabet"
proof (induction bs rule: urlsafe_b64encode.induct)
  case 1
  show ?case by simp
next
  case (2 a)
  show ?case
    by (rule exI [of _ "[b64char (unat a div 4), b64char (unat a mod 4 * 16)]"],
        rule exI [of _ 2]) (simp add: b64char_in_alphabet numeral_2_eq_2)
next
  case (3 a b)
  show ?case
    by (rule exI [of _ "[b64char (unat a div 4), b64char (unat a mod 4 * 16 + unat b div 16),
                         b64char (unat b mod 16 * 4)]"],
        rule exI [of _ 1]) (simp add: b64char_in_alphabet)
next
  case (4 a b c rest)
  then obtain p k where p: "urlsafe_b64encode rest = p @ replicate k CHR ''=''"
    "length p = (4 * length rest + 2) div 3"
    "set p \<subseteq> set urlsafe_alphabet"
    by blast
  let ?q = "[b64char (unat a div 4), b64char (unat a mod 4 * 16 + unat b div 16),
             b64char (unat b mod 16 * 4 + unat c div 64), b64char (unat c mod 64)]"
  have "urlsafe_b64encode (a # b # c # rest) = (?q @ p) @ replicate k CHR ''=''"
    using p(1) by simp
  moreover have "length (?q @ p) = (4 * length (a # b # c # rest) + 2) div 3"
    using p(2) by simp
  moreover have "set (?q @ p)
      \<subseteq> set urlsafe_alphabet"
    using p(3) b64char_in_alphabet by simp
  ultimately show ?case by blast
qed

lemma token_urlsafe_format:
  "length (token_urlsafe src n) = (4 * n + 2) div 3
   \<and> set (token_urlsafe src n)
       \<subseteq> set urlsafe_alphabet"
proof -
  obtain p k where p: "urlsafe_b64encode (token_bytes src n) = p @ replicate k CHR ''=''"
    "length p = (4 * length (token_bytes src n) + 2) div 3"
    "set p \<subseteq> set urlsafe_alphabet"
    using urlsafe_b64encode_shape by blast
  from p(3) pad_not_in_alphabet have "CHR ''='' \<notin> set p"
    by auto
  then have "token_urlsafe src n = p"
    by (simp add: token_urlsafe_def p(1) rstrip_padding)
  with p(2) p(3) show ?thesis
    by (simp add: token_bytes_def)
qed

section \<open>Runtime: what a call that creates a submission stores and replies\<close>


lemma first_transition_of_new_machine:
  "transition_to IN_PROGRESS act u now (new_state_machine sid DRAFT) =
     (Inr (), emit_event IN_PROGRESS act DRAFT u now
                (new_state_machine sid DRAFT\<lparr>state := IN_PROGRESS\<rparr>))"
  by (simp add: transition_to_def can_transition_to_def new_state_machine_def Let_def)

lemma state_of_new_machine: "state (new_state_machine sid st) = st"
  by (simp add: new_state_machine_def)

lemma state_after_emit_event: "state (emit_event s act old u now sm) = state sm"
  by (simp add: emit_event_def Let_def)

lemma create_submission_fresh:
  assumes "existing_submission rt key = None"
    and "create_submission a key f t d rt = (Inr rep, rt')"
  shows "submissionId rep = ''sub_'' @ take 16 (uuid_hex (submission_uuid d))
         \<and> resumeToken rep = generate_resume_token (token_source d)
         \<and> ok rep \<and> resp_schema rep = rt_schema rt \<and> rt_schema rt' = rt_schema rt
         \<and> (\<exists>r. submissions rt' (submissionId rep) = Some r
                \<and> rec_resume_token r = resumeToken rep)
         \<and> (\<exists>sm. state_machines rt' (submissionId rep) = Some sm
                \<and> resp_state rep = state_value (state sm))
         \<and> (key_given key \<longrightarrow> idempotency_keys rt' (the key) = Some (submissionId rep))"
proof (cases "normalize_actor a")
  case (Inl e)
  with assms show ?thesis
    by (simp add: create_submission_def)
next
  case (Inr act)
  show ?thesis
  proof (cases "fields_given f")
    case False
    with assms Inr show ?thesis
      by (auto simp add: create_submission_def Let_def state_of_new_machine)
  next
    case True
    with assms Inr show ?thesis
      by (auto simp add: create_submission_def Let_def first_transition_of_new_machine
          state_after_emit_event split: sum.splits if_splits)
  qed
qed

section \<open>Runtime: idempotent creation\<close>

lemma sample_id_prefixes:
  "take 16 (uuid_hex (submission_uuid draws_a)) = ''0123456789abcdef''
   \<and> take 16 (uuid_hex (submission_uuid draws_b)) = ''fedcba9876543210''
   \<and> take 16 (uuid_hex (event_uuid draws_a)) = ''0011223344556677''"
  by code_simp

lemma sample_token:
  "generate_resume_token (token_source draws_a)
     = ''rt_AwoRGB8mLTQ7QklQV15lbHN6gYiPlp2kq7K5wMfO1dw''"
  by code_simp

lemma bot_dict_normalized: "normalize_actor bot_dict = Inr bot_1"
  by (simp add: normalize_actor_def bot_dict_def actor_kind_of_def bot_1_def)


lemma first_keyed_call:
  "create_submission bot_dict (Some ''k1'') None None draws_a signup_runtime =
     (Inr \<lparr>ok = True, submissionId = ''sub_0123456789abcdef'', resp_state = ''draft'',
           resumeToken = ''rt_AwoRGB8mLTQ7QklQV15lbHN6gYiPlp2kq7K5wMfO1dw'',
           resp_schema = signup_schema, missingFields = None\<rparr>,
      after_first_call)"
  by (simp add: create_submission_def existing_submission_def key_given_def fields_given_def
      bot_dict_normalized sample_id_prefixes sample_token Let_def signup_runtime_def
      after_first_call_def actor_to_dict_def bot_1_def)












text \<open>
  What the theorem leaves open is a first call that raises. \<^verbatim>\<open>create_submission\<close> stores
  the key before it validates the initial fields and stores the record after: when the
  validator raises, the key stays behind without a record, and the next call with the key
  raises \<^verbatim>\<open>ValueError\<close>.
\<close>

lemma key_stored_before_validation_raises:
  "fst (create_submission bot_dict (Some ''k1'') (Some [(''name'', JStr ''A'')]) None draws_a
          dangling_ref_runtime) = Inl (LibraryError ''_WrappedReferencingError'')
   \<and> idempotency_keys (snd (create_submission bot_dict (Some ''k1'')
          (Some [(''name'', JStr ''A'')]) None draws_a dangling_ref_runtime)) ''k1''
       = Some ''sub_0123456789abcdef''
   \<and> submissions (snd (create_submission bot_dict (Some ''k1'')
          (Some [(''name'', JStr ''A'')]) None draws_a dangling_ref_runtime))
          ''sub_0123456789abcdef'' = None
   \<and> fst (create_submission bot_dict (Some ''k1'') (Some [(''name'', JStr ''A'')]) None draws_b
          (snd (create_submission bot_dict (Some ''k1'') (Some [(''name'', JStr ''A'')]) None
                  draws_a dangling_ref_runtime)))
       = Inl (ValueError ''Submission sub_0123456789abcdef not found'')"
  by (simp add: create_submission_def existing_submission_def key_given_def fields_given_def
      bot_dict_normalized sample_id_prefixes Let_def dangling_ref_runtime_def
      first_transition_of_new_machine validate_def dangling_ref_lib_def
      get_submission_response_def)

section \<open>Identifier formats of minted ids\<close>

text \<open>
  C8, as amended. The event minted by a legal \<^verbatim>\<open>transition_to\<close> has the id \<^verbatim>\<open>evt_\<close>
  followed by 16 hexadecimal digits, the first 16 of the uuid's 32. A
  \<^verbatim>\<open>create_submission\<close> that creates a submission replies with a \<^verbatim>\<open>submissionId\<close> that is
  \<^verbatim>\<open>sub_\<close> followed by 16 hexadecimal digits, and with a \<^verbatim>\<open>resumeToken\<close> that is
  \<^verbatim>\<open>rt_\<close> followed by 43 characters of the URL-safe base64 alphabet: the unpadded
  encoding of 32 bytes taken from the random source.
\<close>

theorem minted_identifier_formats:
  assumes "can_transition_to sm dst"
    and "existing_submission rt key = None"
    and "create_submission a key f t d rt = (Inr rep, rt')"
  shows "event_id (last (events (snd (transition_to dst act u now sm))))
           = ''evt_'' @ take 16 (uuid_hex u)
         \<and> length (take 16 (uuid_hex u)) = 16
         \<and> set (take 16 (uuid_hex u)) \<subseteq> set hex_digits
         \<and> submissionId rep = ''sub_'' @ take 16 (uuid_hex (submission_uuid d))
         \<and> length (take 16 (uuid_hex (submission_uuid d))) = 16
         \<and> set (take 16 (uuid_hex (submission_uuid d))) \<subseteq> set hex_digits
         \<and> resumeToken rep = ''rt_'' @ token_urlsafe (token_source d) 32
         \<and> token_urlsafe (token_source d) 32
             = rstrip CHR ''='' (urlsafe_b64encode (token_bytes (token_source d) 32))
         \<and> length (token_bytes (token_source d) 32) = 32
         \<and> length (token_urlsafe (token_source d) 32) = 43
         \<and> set (token_urlsafe (token_source d) 32) \<subseteq> set urlsafe_alphabet"
proof -
  have ev: "event_id (last (events (snd (transition_to dst act u now sm))))
      = ''evt_'' @ take 16 (uuid_hex u)"
    by (simp add: transition_to_legal [OF assms(1)] emit_event_def Let_def)
  from create_submission_fresh [OF assms(2) assms(3)]
  have ids: "submissionId rep = ''sub_'' @ take 16 (uuid_hex (submission_uuid d))"
    "resumeToken rep = ''rt_'' @ token_urlsafe (token_source d) 32"
    by (simp_all add: generate_resume_token_def)
  have tok: "length (token_urlsafe (token_source d) 32) = 43"
    "set (token_urlsafe (token_source d) 32) \<subseteq> set urlsafe_alphabet"
    using token_urlsafe_format [of "token_source d" 32] by simp_all
  from ev ids tok uuid_prefix_format [of u] uuid_prefix_format [of "submission_uuid d"]
  show ?thesis
    by (simp add: token_urlsafe_def token_bytes_def)
qed

theorem minted_identifier_formats_witness:
  "event_id (last (events (snd (transition_to IN_PROGRESS bot_1 (event_uuid draws_a) jan15
                                  draft_machine))))
     = ''evt_0011223344556677''
   \<and> submissionId (projr (fst (create_submission bot_dict (Some ''k1'') None None draws_a
                                 signup_runtime))) = ''sub_0123456789abcdef''
   \<and> resumeToken (projr (fst (create_submission bot_dict (Some ''k1'') None None draws_a
                                signup_runtime)))
       = ''rt_AwoRGB8mLTQ7QklQV15lbHN6gYiPlp2kq7K5wMfO1dw''
   \<and> length (token_urlsafe (token_source draws_a) 32) = 43"
proof -
  have legal: "can_transition_to draft_machine IN_PROGRESS"
    by (simp add: can_transition_to_def draft_machine_def new_state_machine_def)
  have new: "existing_submission signup_runtime (Some ''k1'') = None"
    by (simp add: existing_submission_def key_given_def signup_runtime_def)
  note inst = minted_identifier_formats [OF legal new first_keyed_call,
      of bot_1 "event_uuid draws_a" jan15]
  from inst have e: "event_id (last (events (snd (transition_to IN_PROGRESS bot_1
      (event_uuid draws_a) jan15 draft_machine)))) = ''evt_'' @ take 16 (uuid_hex (event_uuid draws_a))"
    by blast
  from inst have l: "length (token_urlsafe (token_source draws_a) 32) = 43"
    by blast
  from e l sample_id_prefixes show ?thesis
    by (simp add: first_keyed_call)
qed

text \<open>
  The claim as the specification words it fails on the length of the hexadecimal part:
  the code keeps \<^verbatim>\<open>uuid4().hex[:16]\<close>, so an event id and a submission id carry 16
  hexadecimal digits after the prefix, not 32.
\<close>

theorem identifier_32_hex_counterexample:
  "length (drop 4 (event_id (last (events (snd
      (transition_to IN_PROGRESS bot_1 (event_uuid draws_a) jan15 draft_machine)))))) = 16
   \<and> length (drop 4 (submissionId (projr (fst
      (create_submission bot_dict (Some ''k1'') None None draws_a signup_runtime))))) = 16
   \<and> length (drop 4 (event_id (last (events (snd
      (transition_to IN_PROGRESS bot_1 (event_uuid draws_a) jan15 draft_machine)))))) \<noteq> 32
   \<and> length (drop 4 (submissionId (projr (fst
      (create_submission bot_dict (Some ''k1'') None None draws_a signup_runtime))))) \<noteq> 32"
  by (simp add: first_keyed_call transition_to_def can_transition_to_def draft_machine_def
      new_state_machine_def emit_event_def Let_def uuid_hex_length)

section \<open>Events on the wire: the round trip through a JSON line\<close>

lemma minted_event_value:
  "minted_event =
     \<lparr>event_id = ''evt_0011223344556677'', ev_type = FIELD_UPDATED,
      ev_submission_id = ''sub_0123456789abcdef'', ts = jan15, actor = bot_1,
      ev_state = IN_PROGRESS,
      payload = Some [(''from_state'', JStr ''draft''), (''to_state'', JStr ''in_progress'')]\<rparr>"
  using sample_id_prefixes
  by (simp add: minted_event_def transition_to_def can_transition_to_def new_state_machine_def
      emit_event_def Let_def)

lemma jan15_isoformat: "isoformat jan15 = ''2024-01-15T10:30:00+00:00''"
  by (simp add: isoformat_def jan15_def zero_padded_def decimal.simps hexdigit_def
      hex_digits_def)

lemma minted_event_dict:
  "to_dict minted_event =
     JObj [(''eventId'', JStr ''evt_0011223344556677''),
           (''type'', JStr ''field.updated''),
           (''submissionId'', JStr ''sub_0123456789abcdef''),
           (''ts'', JStr ''2024-01-15T10:30:00+00:00''),
           (''actor'', JObj [(''kind'', JStr ''agent''), (''id'', JStr ''bot_1'')]),
           (''state'', JStr ''in_progress''),
           (''payload'',
            JObj [(''from_state'', JStr ''draft''), (''to_state'', JStr ''in_progress'')])]"
  by (simp add: to_dict_def minted_event_value jan15_isoformat actor_to_dict_def bot_1_def)

lemma json_quote_plain:
  assumes "list_all (\<lambda>c. 32 \<le> (of_char c :: nat) \<and> (of_char c :: nat) \<le> 126
                         \<and> (of_char c :: nat) \<noteq> 34 \<and> (of_char c :: nat) \<noteq> 92) s"
  shows "json_quote s = CHR 0x22 # s @ [CHR 0x22]"
proof -
  have "concat (map json_escape s) = s"
    using assms
  proof (induction s)
    case Nil
    then show ?case by simp
  next
    case (Cons c s)
    then have "json_escape c = [c]"
      by (auto simp add: json_escape_def Let_def)
    with Cons show ?case by simp
  qed
  then show ?thesis
    by (simp add: json_quote_def)
qed

lemma minted_event_line: \<open>to_jsonl minted_event =
  ''{"eventId":"evt_0011223344556677","type":"field.updated","submissionId":"sub_0123456789abcdef","ts":"2024-01-15T10:30:00+00:00","actor":{"kind":"agent","id":"bot_1"},"state":"in_progress","payload":{"from_state":"draft","to_state":"in_progress"}}''\<close>
  by (simp add: to_jsonl_def minted_event_dict json_quote_plain)

lemma minted_event_line_loaded: \<open>json_loads
  ''{"eventId":"evt_0011223344556677","type":"field.updated","submissionId":"sub_0123456789abcdef","ts":"2024-01-15T10:30:00+00:00","actor":{"kind":"agent","id":"bot_1"},"state":"in_progress","payload":{"from_state":"draft","to_state":"in_progress"}}''
  = Inr (JObj [(''eventId'', JStr ''evt_0011223344556677''),
               (''type'', JStr ''field.updated''),
               (''submissionId'', JStr ''sub_0123456789abcdef''),
               (''ts'', JStr ''2024-01-15T10:30:00+00:00''),
               (''actor'', JObj [(''kind'', JStr ''agent''), (''id'', JStr ''bot_1'')]),
               (''state'', JStr ''in_progress''),
               (''payload'',
                JObj [(''from_state'', JStr ''draft''),
                      (''to_state'', JStr ''in_progress'')])])\<close>
  by code_simp

lemma jan15_read: "fromisoformat (replace_Z ''2024-01-15T10:30:00+00:00'') = Inr jan15"
  by (simp add: fromisoformat_def replace_Z_def parse_date_def parse_time_def
      parse_hh_mm_ss_ff_def parse_offset_def parse_digits_def is_digit_def digits_value_def
      digit_value_def valid_datetime_def days_in_month_def jan15_def)

lemma bot_1_read:
  "actor_from_dict (JObj [(''kind'', JStr ''agent''), (''id'', JStr ''bot_1'')])
     = Inr \<lparr>kind = AGENT, actor_id = ''bot_1'', name = None, metadata = Some []\<rparr>"
  by (simp add: actor_from_dict_def getitem_def dict_get_def actor_kind_of_def)

lemma minted_event_dict_read:
  "from_dict
     (JObj [(''eventId'', JStr ''evt_0011223344556677''),
            (''type'', JStr ''field.updated''),
            (''submissionId'', JStr ''sub_0123456789abcdef''),
            (''ts'', JStr ''2024-01-15T10:30:00+00:00''),
            (''actor'', JObj [(''kind'', JStr ''agent''), (''id'', JStr ''bot_1'')]),
            (''state'', JStr ''in_progress''),
            (''payload'',
             JObj [(''from_state'', JStr ''draft''), (''to_state'', JStr ''in_progress'')])])
   = Inr \<lparr>event_id = ''evt_0011223344556677'', ev_type = FIELD_UPDATED,
          ev_submission_id = ''sub_0123456789abcdef'', ts = jan15,
          actor = \<lparr>kind = AGENT, actor_id = ''bot_1'', name = None, metadata = Some []\<rparr>,
          ev_state = IN_PROGRESS,
          payload = Some [(''from_state'', JStr ''draft''),
                          (''to_state'', JStr ''in_progress'')]\<rparr>"
  by (simp add: from_dict_def getitem_def dict_get_def jan15_read bot_1_read
      event_type_of_def submission_state_of_def)

text \<open>
  C9. The event that the runtime has the state machine mint for an actor given as the
  dict \<^verbatim>\<open>{"kind": "agent", "id": "bot_1"}\<close> carries an actor whose metadata is
  \<^verbatim>\<open>None\<close>. Its JSON line is compact and leaves the metadata out; parsing the line back
  gives an event whose actor has the empty dict as metadata, so the event read is not the
  event written. All the other fields come back as they were.
\<close>

theorem jsonl_round_trip_changes_none_metadata:
  \<open>metadata (actor minted_event) = None
   \<and> to_jsonl minted_event =
  ''{"eventId":"evt_0011223344556677","type":"field.updated","submissionId":"sub_0123456789abcdef","ts":"2024-01-15T10:30:00+00:00","actor":{"kind":"agent","id":"bot_1"},"state":"in_progress","payload":{"from_state":"draft","to_state":"in_progress"}}''
   \<and> event_from_jsonl (to_jsonl minted_event)
       = Inr (minted_event\<lparr>actor := (actor minted_event)\<lparr>metadata := Some []\<rparr>\<rparr>)
   \<and> event_from_jsonl (to_jsonl minted_event) \<noteq> Inr minted_event\<close>
proof -
  have m: "metadata (actor minted_event) = None"
    by (simp add: minted_event_value bot_1_def)
  have again: "event_from_jsonl (to_jsonl minted_event)
      = Inr (minted_event\<lparr>actor := (actor minted_event)\<lparr>metadata := Some []\<rparr>\<rparr>)"
    unfolding event_from_jsonl_def minted_event_line minted_event_line_loaded
    by (simp add: minted_event_dict_read minted_event_value bot_1_def)
  have "minted_event\<lparr>actor := (actor minted_event)\<lparr>metadata := Some []\<rparr>\<rparr> \<noteq> minted_event"
    by (simp add: minted_event_value bot_1_def)
  with m again minted_event_line show ?thesis
    by simp
qed

section \<open>Events on the wire: the line is one line of ASCII\<close>

lemma hexdigit_printable: "printable (hexdigit n)"
proof -
  have "list_all printable hex_digits"
    by (simp add: hex_digits_def printable_def)
  moreover have "hexdigit n \<in> set hex_digits"
    unfolding hexdigit_def by (rule nth_mem) (simp add: hex_digits_def)
  ultimately show ?thesis
    by (simp add: list_all_iff)
qed

lemma decimal_printable: "list_all printable (decimal n)"
proof (induction n rule: decimal.induct)
  case (1 n)
  show ?case
  proof (cases "n < 10")
    case True
    then show ?thesis
      by (subst decimal.simps) (simp add: hexdigit_printable)
  next
    case False
    with 1 show ?thesis
      by (subst decimal.simps) (simp add: hexdigit_printable)
  qed
qed

lemma str_int_printable: "list_all printable (str_int i)"
  by (simp add: str_int_def decimal_printable) (simp add: printable_def)

lemma json_escape_printable: "list_all printable (json_escape c)"
  by (auto simp add: json_escape_def Let_def hex2_def hexdigit_printable)
     (simp_all add: printable_def)

lemma json_quote_printable: "list_all printable (json_quote s)"
proof -
  have "list_all printable (concat (map json_escape s))"
    by (induction s) (simp_all add: json_escape_printable)
  then show ?thesis
    by (simp add: json_quote_def) (simp add: printable_def)
qed

lemma join_printable:
  assumes "list_all printable sep" and "\<forall>x\<in>set xs. list_all printable x"
  shows "list_all printable (join sep xs)"
  using assms by (induction sep xs rule: join.induct) simp_all

lemma json_dumps_printable: "list_all printable (json_dumps v)"
proof (induction v)
  case JNull
  show ?case by (simp add: printable_def)
next
  case (JBool b)
  show ?case by (simp add: printable_def)
next
  case (JInt i)
  show ?case by (simp add: str_int_printable)
next
  case (JStr s)
  show ?case by (simp add: json_quote_printable)
next
  case (JArr xs)
  then have "\<forall>x\<in>set (map json_dumps xs). list_all printable x"
    by auto
  moreover have "list_all printable '',''"
    by (simp add: printable_def)
  ultimately have "list_all printable (join '','' (map json_dumps xs))"
    by (rule join_printable [rotated])
  moreover have "printable CHR ''[''" "printable CHR '']''"
    by (simp_all add: printable_def)
  ultimately show ?case
    by simp
next
  case (JObj kvs)
  have "\<forall>x\<in>set (map (\<lambda>kv. json_quote (fst kv) @ '':'' @ json_dumps (snd kv)) kvs).
          list_all printable x"
  proof
    fix x
    assume "x \<in> set (map (\<lambda>kv. json_quote (fst kv) @ '':'' @ json_dumps (snd kv)) kvs)"
    then obtain kv where kv: "kv \<in> set kvs"
      and x: "x = json_quote (fst kv) @ '':'' @ json_dumps (snd kv)"
      by auto
    have "snd kv \<in> Basic_BNFs.snds kv"
      by (cases kv) simp
    from JObj [OF kv this] have "list_all printable (json_dumps (snd kv))" .
    moreover have "printable CHR '':''"
      by (simp add: printable_def)
    ultimately show "list_all printable x"
      using x by (simp add: json_quote_printable)
  qed
  moreover have "list_all printable '',''"
    by (simp add: printable_def)
  ultimately have
    "list_all printable
       (join '','' (map (\<lambda>kv. json_quote (fst kv) @ '':'' @ json_dumps (snd kv)) kvs))"
    by (rule join_printable [rotated])
  moreover have "printable CHR ''{''" "printable CHR ''}''"
    by (simp_all add: printable_def)
  ultimately show ?case
    by simp
qed

lemma to_jsonl_single_line:
  "list_all printable (to_jsonl e) \<and> CHR 0x0A \<notin> set (to_jsonl e)
   \<and> CHR 0x0D \<notin> set (to_jsonl e) \<and> CHR 0x09 \<notin> set (to_jsonl e)"
proof -
  have p: "list_all printable (to_jsonl e)"
    by (simp add: to_jsonl_def json_dumps_printable)
  have "\<not> printable CHR 0x0A" "\<not> printable CHR 0x0D" "\<not> printable CHR 0x09"
    by (simp_all add: printable_def)
  with p show ?thesis
    by (auto simp add: list_all_iff)
qed

end
